theory Spec2Isabelle
  imports Complex_Main "HOL-Library.Sublist" "HOL-Library.AList"
begin

section \<open>Python values used by the rule engine\<close>

subsection \<open>Strings\<close>

text \<open>
  A Python \<open>str\<close> is a sequence of Unicode code points, and the engine depends on that:
  its tables and fallback tokens are CJK text, \<open>len\<close> counts code points and \<open>strip\<close>
  removes Unicode white space. A string is therefore a list of code points. ASCII
  literals of the source are written \<open>lit ''...''\<close>, other literals as code points.
\<close>

type_synonym ustr = "nat list"

definition lit :: "string \<Rightarrow> ustr" where
  "lit s = map of_char s"

definition is_ascii :: "ustr \<Rightarrow> bool" where
  "is_ascii s = list_all (\<lambda>c. c < 128) s"

text \<open>
  \<open>str.isspace\<close> per code point. \<open>str.strip()\<close> and the class \<open>\s\<close> of \<open>re\<close> on
  \<open>str\<close> patterns both use it.
\<close>

definition is_space :: "nat \<Rightarrow> bool" where
  "is_space c \<longleftrightarrow>
     (9 \<le> c \<and> c \<le> 13) \<or> (28 \<le> c \<and> c \<le> 32) \<or> c = 133 \<or> c = 160 \<or> c = 5760 \<or>
     (8192 \<le> c \<and> c \<le> 8202) \<or> c = 8232 \<or> c = 8233 \<or> c = 8239 \<or> c = 8287 \<or> c = 12288"

definition py_strip :: "ustr \<Rightarrow> ustr" where
  "py_strip s = rev (dropWhile is_space (rev (dropWhile is_space s)))"

text \<open>\<open>re.sub(r"\s+", " ", s)\<close>: every maximal run of white space becomes one space.\<close>

function collapse_ws :: "ustr \<Rightarrow> ustr" where
  "collapse_ws [] = []"
| "collapse_ws (c # s) =
     (if is_space c then 32 # collapse_ws (dropWhile is_space s) else c # collapse_ws s)"
  by pat_completeness auto
termination
  by (relation "measure length") (auto simp: length_dropWhile_le less_Suc_eq_le)

definition ascii_lower :: "nat \<Rightarrow> nat" where
  "ascii_lower c = (if 65 \<le> c \<and> c \<le> 90 then c + 32 else c)"

text \<open>\<open>sep.join(xs)\<close>.\<close>

fun join :: "ustr \<Rightarrow> ustr list \<Rightarrow> ustr" where
  "join sep [] = []"
| "join sep [x] = x"
| "join sep (x # y # xs) = x @ sep @ join sep (y # xs)"

text \<open>
  \<open>text.find(kw)\<close> is the first index at which \<open>kw\<close> occurs, or \<open>-1\<close>; \<open>kw in text\<close>
  is \<^const>\<open>sublist\<close>; \<open>text.count(kw)\<close> counts occurrences from the left without overlap.
\<close>

fun first_index :: "ustr \<Rightarrow> ustr \<Rightarrow> nat option" where
  "first_index kw [] = (if kw = [] then Some 0 else None)"
| "first_index kw (c # t) =
     (if prefix kw (c # t) then Some 0 else map_option Suc (first_index kw t))"

definition str_find :: "ustr \<Rightarrow> ustr \<Rightarrow> int" where
  "str_find text kw = (case first_index kw text of None \<Rightarrow> - 1 | Some i \<Rightarrow> int i)"

fun count_from :: "ustr \<Rightarrow> nat \<Rightarrow> ustr \<Rightarrow> nat" where
  "count_from kw skip [] = 0"
| "count_from kw skip (c # t) =
     (if 0 < skip then count_from kw (skip - 1) t
      else if prefix kw (c # t) then 1 + count_from kw (length kw - 1) t
      else count_from kw 0 t)"

definition str_count :: "ustr \<Rightarrow> ustr \<Rightarrow> nat" where
  "str_count text kw = (if kw = [] then length text + 1 else count_from kw 0 text)"

text \<open>\<open>text[s:e]\<close> for indices \<open>0 \<le> s\<close>, \<open>0 \<le> e\<close>: slicing clamps, it never raises.\<close>

definition slice :: "ustr \<Rightarrow> nat \<Rightarrow> nat \<Rightarrow> ustr" where
  "slice text s e = take (e - s) (drop s text)"

subsection \<open>Decoded JSON\<close>

text \<open>
  The input document is what \<open>json.load\<close> returns: \<open>None\<close>, booleans, integers, floats,
  strings, lists and dictionaries (an association list with distinct keys, looked up by
  \<^const>\<open>map_of\<close>). A float is \<open>nan\<close>, \<open>inf\<close>, \<open>-inf\<close> (\<open>json.load\<close> accepts
  \<open>NaN\<close>, \<open>Infinity\<close> and \<open>-Infinity\<close>) or finite, and a finite float is the rational
  number it denotes (\<open>-0.0\<close> is \<open>0\<close>: the engine cannot tell them apart).
\<close>

datatype pyfloat = PyFinite rat | PyNaN | PyInf | PyNegInf

datatype json =
    JNull
  | JBool bool
  | JInt int
  | JFloat pyfloat
  | JStr ustr
  | JArr "json list"
  | JObj "(ustr \<times> json) list"

text \<open>
  The exceptions that the engine can raise; \<open>RegexError\<close> is \<open>re.error\<close>.
\<close>

datatype py_error = AttributeError | TypeError | ValueError | OverflowError | RegexError

text \<open>\<open>bool(x)\<close>: of the floats only zero is falsy.\<close>

fun truthy :: "json \<Rightarrow> bool" where
  "truthy JNull = False"
| "truthy (JBool b) = b"
| "truthy (JInt n) = (n \<noteq> 0)"
| "truthy (JFloat f) = (f \<noteq> PyFinite 0)"
| "truthy (JStr s) = (s \<noteq> [])"
| "truthy (JArr xs) = (xs \<noteq> [])"
| "truthy (JObj kvs) = (kvs \<noteq> [])"

text \<open>\<open>x or d\<close>.\<close>

definition py_or :: "json \<Rightarrow> json \<Rightarrow> json" where
  "py_or x d = (if truthy x then x else d)"

text \<open>\<open>obj.get(k, d)\<close>: only a dictionary has the method.\<close>

fun dict_get :: "json \<Rightarrow> ustr \<Rightarrow> json \<Rightarrow> py_error + json" where
  "dict_get (JObj kvs) k d = Inr (case map_of kvs k of None \<Rightarrow> d | Some v \<Rightarrow> v)"
| "dict_get _ k d = Inl AttributeError"

text \<open>
  \<open>for item in x\<close>: a list yields its elements, a dictionary its keys, a string its
  characters; \<open>None\<close>, booleans and numbers are not iterable.
\<close>

fun py_iter :: "json \<Rightarrow> py_error + json list" where
  "py_iter (JArr xs) = Inr xs"
| "py_iter (JObj kvs) = Inr (map (\<lambda>kv. JStr (fst kv)) kvs)"
| "py_iter (JStr s) = Inr (map (\<lambda>c. JStr [c]) s)"
| "py_iter _ = Inl TypeError"

text \<open>
  Some built-ins depend on the Unicode tables of the interpreter or on library code that
  is not part of this repository. They are defined here where the answer is fixed by the
  language (ASCII text, scalars) and taken from a parameter elsewhere, so that every
  theorem holds whatever those parts compute:
  \<^item> \<open>lower_other\<close>: \<open>str.lower()\<close> of a string that is not pure ASCII;
  \<^item> \<open>search_ic_other\<close>: the span of \<open>re.search(re.escape(kw), text, re.IGNORECASE)\<close>
    when \<open>kw\<close> or \<open>text\<close> is not pure ASCII;
  \<^item> \<open>int_other\<close>: \<open>int(s)\<close> of a string that is not pure ASCII or longer than the
    interpreter's digit limit (\<open>None\<close> is \<open>ValueError\<close>);
  \<^item> \<open>str_other\<close>: \<open>str(x)\<close> of a float, list or dictionary.
\<close>

record py_runtime =
  lower_other :: "ustr \<Rightarrow> ustr"
  search_ic_other :: "ustr \<Rightarrow> ustr \<Rightarrow> (nat \<times> nat) option"
  int_other :: "ustr \<Rightarrow> int option"
  str_other :: "json \<Rightarrow> ustr"

definition str_lower :: "py_runtime \<Rightarrow> ustr \<Rightarrow> ustr" where
  "str_lower rt s = (if is_ascii s then map ascii_lower s else lower_other rt s)"

text \<open>
  A literal, case-insensitive search: \<open>re.escape\<close> makes every character of the keyword
  match itself, so on ASCII text the first match is the first position at which the
  keyword occurs up to ASCII case.
\<close>

fun first_index_ic :: "ustr \<Rightarrow> ustr \<Rightarrow> nat option" where
  "first_index_ic kw [] = (if kw = [] then Some 0 else None)"
| "first_index_ic kw (c # t) =
     (if prefix (map ascii_lower kw) (map ascii_lower (c # t)) then Some 0
      else map_option Suc (first_index_ic kw t))"

definition search_ic :: "py_runtime \<Rightarrow> ustr \<Rightarrow> ustr \<Rightarrow> (nat \<times> nat) option" where
  "search_ic rt kw text =
     (if is_ascii kw \<and> is_ascii text
      then map_option (\<lambda>i. (i, i + length kw)) (first_index_ic kw text)
      else search_ic_other rt kw text)"

text \<open>\<open>str(n)\<close> of an integer.\<close>

fun digits :: "nat \<Rightarrow> ustr" where
  "digits n = (if n < 10 then [48 + n] else digits (n div 10) @ [48 + n mod 10])"

declare digits.simps [simp del]

definition str_of_int :: "int \<Rightarrow> ustr" where
  "str_of_int i = (if i < 0 then 45 # digits (nat (- i)) else digits (nat i))"

fun py_str :: "py_runtime \<Rightarrow> json \<Rightarrow> ustr" where
  "py_str rt (JStr s) = s"
| "py_str rt (JInt n) = str_of_int n"
| "py_str rt JNull = lit ''None''"
| "py_str rt (JBool b) = (if b then lit ''True'' else lit ''False'')"
| "py_str rt v = str_other rt v"

text \<open>
  \<open>int(s)\<close> of an ASCII string: white space of the C locale around an optional sign and
  decimal digits, single underscores allowed between digits.
\<close>

definition is_c_space :: "nat \<Rightarrow> bool" where
  "is_c_space c \<longleftrightarrow> (9 \<le> c \<and> c \<le> 13) \<or> c = 32"

fun digits_value :: "nat \<Rightarrow> bool \<Rightarrow> ustr \<Rightarrow> nat option" where
  "digits_value acc after_digit [] = (if after_digit then Some acc else None)"
| "digits_value acc after_digit (c # s) =
     (if 48 \<le> c \<and> c \<le> 57 then digits_value (10 * acc + (c - 48)) True s
      else if c = 95 \<and> after_digit then digits_value acc False s
      else None)"

definition ascii_int :: "ustr \<Rightarrow> int option" where
  "ascii_int s =
     (let t = rev (dropWhile is_c_space (rev (dropWhile is_c_space s)))
      in case t of
           [] \<Rightarrow> None
         | c # r \<Rightarrow>
             if c = 45 then map_option (\<lambda>n. - int n) (digits_value 0 False r)
             else if c = 43 then map_option int (digits_value 0 False r)
             else map_option int (digits_value 0 False t))"

definition int_of_str :: "py_runtime \<Rightarrow> ustr \<Rightarrow> int option" where
  "int_of_str rt s =
     (if is_ascii s \<and> length s \<le> 4300 then ascii_int s else int_other rt s)"

text \<open>
  \<open>int(x)\<close>. A finite float is truncated towards zero, \<open>int(nan)\<close> raises \<open>ValueError\<close>
  and \<open>int(inf)\<close> raises \<open>OverflowError\<close>; \<open>None\<close>, lists and dictionaries raise
  \<open>TypeError\<close>.
\<close>

definition float_trunc :: "rat \<Rightarrow> int" where
  "float_trunc q = (if q < 0 then - \<lfloor>- q\<rfloor> else \<lfloor>q\<rfloor>)"

fun py_int :: "py_runtime \<Rightarrow> json \<Rightarrow> py_error + int" where
  "py_int rt (JInt n) = Inr n"
| "py_int rt (JBool b) = Inr (if b then 1 else 0)"
| "py_int rt (JFloat f) =
     (case f of PyFinite q \<Rightarrow> Inr (float_trunc q) | PyNaN \<Rightarrow> Inl ValueError
      | PyInf \<Rightarrow> Inl OverflowError | PyNegInf \<Rightarrow> Inl OverflowError)"
| "py_int rt (JStr s) = (case int_of_str rt s of None \<Rightarrow> Inl ValueError | Some n \<Rightarrow> Inr n)"
| "py_int rt _ = Inl TypeError"

section \<open>Data extraction\<close>

text \<open>
  The dataclasses \<open>Line\<close> and \<open>Block\<close>. Both have a field \<open>source_page\<close> in the source;
  the fields of \<open>Line\<close> carry the prefix \<open>line_\<close> here. The field \<open>text_raw\<close> of a block is
  \<open>b_text_raw\<close>, since \<open>text_raw\<close> is a keyword of Isabelle.
\<close>

record Line =
  line_id :: ustr
  line_text :: ustr
  line_source_page :: int

record Block =
  block_id :: ustr
  block_type :: ustr
  b_text_raw :: ustr
  source_page :: int

text \<open>One pass of each loop of \<open>load_block_extractor_output\<close>.\<close>

definition load_line :: "py_runtime \<Rightarrow> json \<Rightarrow> py_error + Line" where
  "load_line rt item =
     (case dict_get item (lit ''line_id'') (JStr []) of Inl e \<Rightarrow> Inl e | Inr i \<Rightarrow>
      case dict_get item (lit ''text'') (JStr []) of Inl e \<Rightarrow> Inl e | Inr t \<Rightarrow>
      case dict_get item (lit ''source_page'') (JInt 1) of Inl e \<Rightarrow> Inl e | Inr p \<Rightarrow>
      case py_int rt (py_or p (JInt 1)) of Inl e \<Rightarrow> Inl e | Inr n \<Rightarrow>
        Inr \<lparr>line_id = py_str rt i, line_text = py_str rt t, line_source_page = n\<rparr>)"

definition load_block :: "py_runtime \<Rightarrow> json \<Rightarrow> py_error + Block" where
  "load_block rt b =
     (case dict_get b (lit ''block_id'') (JStr []) of Inl e \<Rightarrow> Inl e | Inr i \<Rightarrow>
      case dict_get b (lit ''block_type'') (JStr []) of Inl e \<Rightarrow> Inl e | Inr ty \<Rightarrow>
      case dict_get b (lit ''text_raw'') (JStr []) of Inl e \<Rightarrow> Inl e | Inr t \<Rightarrow>
      case dict_get b (lit ''source_page'') (JInt 1) of Inl e \<Rightarrow> Inl e | Inr p \<Rightarrow>
      case py_int rt (py_or p (JInt 1)) of Inl e \<Rightarrow> Inl e | Inr n \<Rightarrow>
        Inr \<lparr>block_id = py_str rt i, block_type = py_str rt ty, b_text_raw = py_str rt t,
             source_page = n\<rparr>)"

text \<open>A loop that appends one loaded item per element and stops at the first exception.\<close>

fun load_all :: "(json \<Rightarrow> py_error + 'a) \<Rightarrow> json list \<Rightarrow> py_error + 'a list" where
  "load_all f [] = Inr []"
| "load_all f (x # xs) =
     (case f x of Inl e \<Rightarrow> Inl e | Inr y \<Rightarrow>
      case load_all f xs of Inl e \<Rightarrow> Inl e | Inr ys \<Rightarrow> Inr (y # ys))"

definition load_block_extractor_output ::
  "py_runtime \<Rightarrow> json \<Rightarrow> py_error + (Line list \<times> Block list)" where
  "load_block_extractor_output rt data =
     (case dict_get data (lit ''raw_text_lines'') (JArr []) of Inl e \<Rightarrow> Inl e | Inr ls \<Rightarrow>
      case py_iter (py_or ls (JArr [])) of Inl e \<Rightarrow> Inl e | Inr litems \<Rightarrow>
      case load_all (load_line rt) litems of Inl e \<Rightarrow> Inl e | Inr raw_lines \<Rightarrow>
      case dict_get data (lit ''blocks'') (JArr []) of Inl e \<Rightarrow> Inl e | Inr bs \<Rightarrow>
      case py_iter (py_or bs (JArr [])) of Inl e \<Rightarrow> Inl e | Inr bitems \<Rightarrow>
      case load_all (load_block rt) bitems of Inl e \<Rightarrow> Inl e | Inr blocks \<Rightarrow>
        Inr (raw_lines, blocks))"

text \<open>
  \<open>build_scopes\<close>. A Python dictionary keeps its keys in insertion order and the format
  rules iterate \<open>page_text_raw\<close>, so that dictionary is an association list maintained by
  \<^const>\<open>AList.update\<close> (a new key goes to the end, a known key keeps its place).
\<close>

record Scopes =
  global_text_raw :: ustr
  page_text_raw :: "(int \<times> ustr) list"
  block_text_raw :: "ustr \<rightharpoonup> ustr"
  line_text_by_id :: "ustr \<rightharpoonup> ustr"
  blocks :: "Block list"
  blocks_by_type :: "ustr \<rightharpoonup> Block list"

definition add_page_text :: "(int \<times> ustr) list \<Rightarrow> Block \<Rightarrow> (int \<times> ustr) list" where
  "add_page_text m b =
     (let m1 = (if map_of m (source_page b) = None
                then AList.update (source_page b) [] m else m)
      in if b_text_raw b \<noteq> []
         then (case map_of m1 (source_page b) of
                 None \<Rightarrow> m1
               | Some v \<Rightarrow> AList.update (source_page b) (v @ b_text_raw b @ [10]) m1)
         else m1)"

definition add_block_type :: "(ustr \<rightharpoonup> Block list) \<Rightarrow> Block \<Rightarrow> (ustr \<rightharpoonup> Block list)" where
  "add_block_type m b =
     m(block_type b \<mapsto> (case m (block_type b) of None \<Rightarrow> [] | Some bs \<Rightarrow> bs) @ [b])"

definition build_scopes :: "Line list \<Rightarrow> Block list \<Rightarrow> Scopes" where
  "build_scopes lines bs =
     \<lparr>global_text_raw = join [10] (map b_text_raw (filter (\<lambda>b. b_text_raw b \<noteq> []) bs)),
      page_text_raw = foldl add_page_text [] bs,
      block_text_raw = foldl (\<lambda>m b. m(block_id b \<mapsto> b_text_raw b)) Map.empty bs,
      line_text_by_id = foldl (\<lambda>m ln. m(line_id ln \<mapsto> line_text ln)) Map.empty lines,
      blocks = bs,
      blocks_by_type = foldl add_block_type Map.empty bs\<rparr>"

section \<open>Dictionary loading\<close>

text \<open>
  The pattern configuration, after its schema: the three normalization switches (false
  when absent), the regex entries in the order of the mapping, the keyword list of each
  intent, the numeric thresholds and the version tag. Names of entries are ASCII
  identifiers and are written as \<open>string\<close>.

  Matching itself is done by \<open>re.finditer\<close>, which is not code of this repository, and
  \<open>compile_regexes\<close> only stores the pattern string: the pattern is compiled when
  \<open>re.finditer\<close> is first called with it. Each regex entry therefore carries
  \<open>meta_spans\<close>: \<open>None\<close> when \<open>re\<close> rejects the pattern with the flags of the entry
  (\<open>re.finditer\<close> then raises \<open>re.error\<close> on every text), and otherwise the function
  from a text to the spans \<open>(m.start(), m.end())\<close> of the matches that \<open>re.finditer\<close>
  yields, left to right.
\<close>

record RegexMeta =
  meta_pattern :: "ustr option"
  meta_flags :: "string list"
  meta_spans :: "(ustr \<Rightarrow> (nat \<times> nat) list) option"

record Config =
  fullwidth_to_halfwidth :: bool
  collapse_whitespace :: bool
  lowercase_for_match :: bool
  regex :: "(string \<times> RegexMeta) list"
  intents :: "string \<rightharpoonup> ustr list"
  thresholds :: "string \<rightharpoonup> int"
  dict_version :: "ustr option"

record RegexPattern =
  name :: string
  pattern :: ustr
  flags :: nat
  finditer :: "(ustr \<Rightarrow> (nat \<times> nat) list) option"

definition add_flag :: "nat \<Rightarrow> string \<Rightarrow> nat" where
  "add_flag fl flg =
     (if flg = ''IGNORECASE'' then or fl 2
      else if flg = ''MULTILINE'' then or fl 8
      else if flg = ''DOTALL'' then or fl 16
      else fl)"

definition compile_regex_entry ::
  "(string \<rightharpoonup> RegexPattern) \<Rightarrow> string \<times> RegexMeta \<Rightarrow> (string \<rightharpoonup> RegexPattern)" where
  "compile_regex_entry out entry =
     (case meta_pattern (snd entry) of
        None \<Rightarrow> out
      | Some pat \<Rightarrow>
          if pat = [] then out
          else out(fst entry \<mapsto>
                 \<lparr>name = fst entry, pattern = pat,
                  flags = foldl add_flag 0 (meta_flags (snd entry)),
                  finditer = meta_spans (snd entry)\<rparr>))"

definition compile_regexes :: "Config \<Rightarrow> (string \<rightharpoonup> RegexPattern)" where
  "compile_regexes cfg = foldl compile_regex_entry Map.empty (regex cfg)"

definition get_intent_keywords :: "Config \<Rightarrow> string \<Rightarrow> ustr list" where
  "get_intent_keywords cfg intent_name =
     filter (\<lambda>k. py_strip k \<noteq> [])
       (case intents cfg intent_name of None \<Rightarrow> [] | Some kws \<Rightarrow> kws)"

section \<open>Normalization (match only)\<close>

definition FULLWIDTH_MAP :: "nat \<rightharpoonup> ustr" where
  "FULLWIDTH_MAP = map_of
     [(65306, lit '':''), (65288, lit ''(''), (65289, lit '')''), (65292, lit '',''),
      (12290, lit ''.''), (65307, lit '';''), (12304, lit ''[''), (12305, lit '']''),
      (65285, lit ''%''), (65291, lit ''+''), (65293, lit ''-''), (65295, lit ''/''),
      (215, [215])]"

definition to_halfwidth :: "ustr \<Rightarrow> ustr" where
  "to_halfwidth s = concat (map (\<lambda>c. case FULLWIDTH_MAP c of None \<Rightarrow> [c] | Some r \<Rightarrow> r) s)"

definition normalize_for_match :: "py_runtime \<Rightarrow> ustr \<Rightarrow> Config \<Rightarrow> ustr" where
  "normalize_for_match rt s cfg =
     (let out1 = (if fullwidth_to_halfwidth cfg then to_halfwidth s else s);
          out2 = (if collapse_whitespace cfg then py_strip (collapse_ws out1) else out1)
      in if lowercase_for_match cfg then str_lower rt out2 else out2)"

definition normalize_for_dedup_key :: "ustr \<Rightarrow> ustr" where
  "normalize_for_dedup_key snippet = map ascii_lower (collapse_ws (py_strip snippet))"

section \<open>Matching utilities\<close>

fun intent_match_any :: "py_runtime \<Rightarrow> ustr \<Rightarrow> ustr list \<Rightarrow> Config \<Rightarrow> bool" where
  "intent_match_any rt text_norm [] cfg = False"
| "intent_match_any rt text_norm (kw # kws) cfg =
     (let kw_norm = normalize_for_match rt kw cfg
      in if kw_norm \<noteq> [] \<and> sublist kw_norm text_norm then True
         else intent_match_any rt text_norm kws cfg)"

text \<open>\<open>list(re.finditer(rx.pattern, text, flags=rx.flags))\<close>, as the spans of the matches.\<close>

definition regex_find_any :: "ustr \<Rightarrow> RegexPattern \<Rightarrow> py_error + (nat \<times> nat) list" where
  "regex_find_any text rx =
     (case finditer rx of None \<Rightarrow> Inl RegexError | Some spans \<Rightarrow> Inr (spans text))"

definition pick_evidence_snippet_for_keyword ::
  "py_runtime \<Rightarrow> ustr \<Rightarrow> ustr \<Rightarrow> Config \<Rightarrow> ustr option" where
  "pick_evidence_snippet_for_keyword rt original_text keyword cfg =
     (if original_text = [] then None
      else if str_find original_text keyword \<noteq> - 1 then Some keyword
      else (case search_ic rt keyword original_text of
              Some m \<Rightarrow> Some (slice original_text (fst m) (snd m))
            | None \<Rightarrow> None))"

definition pick_evidence_snippet_for_regex ::
  "ustr \<Rightarrow> RegexPattern \<Rightarrow> py_error + ustr option" where
  "pick_evidence_snippet_for_regex original_text rx =
     (if original_text = [] then Inr None
      else (case regex_find_any original_text rx of
              Inl e \<Rightarrow> Inl e
            | Inr ms \<Rightarrow>
                (case ms of
                   [] \<Rightarrow> Inr None
                 | m # rest \<Rightarrow> Inr (Some (slice original_text (fst m) (snd m))))))"

text \<open>
  The loop \<open>for kw in kws: sn = pick_evidence_snippet_for_keyword(text, kw, cfg);
  if sn: ...; break\<close>, which the format rules, the weak relationship rule and
  \<open>pick_first_keyword_evidence_in_blocks\<close> all contain.
\<close>

fun first_keyword_snippet :: "py_runtime \<Rightarrow> ustr \<Rightarrow> ustr list \<Rightarrow> Config \<Rightarrow> ustr option" where
  "first_keyword_snippet rt text [] cfg = None"
| "first_keyword_snippet rt text (kw # kws) cfg =
     (case pick_evidence_snippet_for_keyword rt text kw cfg of
        Some sn \<Rightarrow> if sn \<noteq> [] then Some sn else first_keyword_snippet rt text kws cfg
      | None \<Rightarrow> first_keyword_snippet rt text kws cfg)"

section \<open>Risk object construction\<close>

record Evidence =
  ev_block_id :: ustr
  raw_snippet :: ustr

record Risk =
  risk_type :: ustr
  detection_method :: ustr
  evidence :: Evidence
  risk_description :: ustr
  risk_logic :: ustr

definition NA :: ustr where
  "NA = lit ''N/A''"

definition DETECTION_METHOD :: ustr where
  "DETECTION_METHOD = lit ''rule_guardrail''"

definition make_risk :: "ustr \<Rightarrow> ustr \<Rightarrow> ustr \<Rightarrow> ustr \<Rightarrow> ustr \<Rightarrow> Risk" where
  "make_risk rtype bid snippet description logic =
     \<lparr>risk_type = rtype, detection_method = DETECTION_METHOD,
      evidence = \<lparr>ev_block_id = bid, raw_snippet = snippet\<rparr>,
      risk_description = description, risk_logic = logic\<rparr>"

text \<open>\<open>x or d\<close> for an optional string: \<open>None\<close> and the empty string are falsy.\<close>

definition or_str :: "ustr option \<Rightarrow> ustr \<Rightarrow> ustr" where
  "or_str x d = (case x of None \<Rightarrow> d | Some s \<Rightarrow> if s = [] then d else s)"

section \<open>Rule execution\<close>

subsection \<open>Missing-field rules\<close>

definition has_block_type :: "Scopes \<Rightarrow> ustr \<Rightarrow> bool" where
  "has_block_type scopes bt =
     (0 < length (case blocks_by_type scopes bt of None \<Rightarrow> [] | Some bs \<Rightarrow> bs))"

definition has_intent :: "py_runtime \<Rightarrow> Scopes \<Rightarrow> Config \<Rightarrow> string \<Rightarrow> bool" where
  "has_intent rt scopes cfg intent =
     intent_match_any rt (normalize_for_match rt (global_text_raw scopes) cfg)
       (get_intent_keywords cfg intent) cfg"

definition has_regex ::
  "Scopes \<Rightarrow> (string \<rightharpoonup> RegexPattern) \<Rightarrow> string \<Rightarrow> py_error + bool" where
  "has_regex scopes regexes rname =
     (case regexes rname of
        None \<Rightarrow> Inr False
      | Some rx \<Rightarrow>
          (case regex_find_any (global_text_raw scopes) rx of
             Inl e \<Rightarrow> Inl e
           | Inr ms \<Rightarrow> Inr (0 < length ms)))"

text \<open>
  \<open>a or b\<close> where evaluating an operand can raise: \<open>b\<close> is evaluated, and can raise, only
  when \<open>a\<close> is false. The arguments are the outcomes of evaluating the operands.
\<close>

definition or_else :: "py_error + bool \<Rightarrow> py_error + bool \<Rightarrow> py_error + bool" where
  "or_else a b = (case a of Inl e \<Rightarrow> Inl e | Inr x \<Rightarrow> if x then Inr True else b)"

definition title_ok :: "Scopes \<Rightarrow> bool" where
  "title_ok scopes =
     list_ex (\<lambda>b. 2 < length (py_strip (b_text_raw b)))
       (case blocks_by_type scopes (lit ''title'') of None \<Rightarrow> [] | Some bs \<Rightarrow> bs)"

definition rule_missing ::
  "py_runtime \<Rightarrow> Scopes \<Rightarrow> Config \<Rightarrow> (string \<rightharpoonup> RegexPattern) \<Rightarrow> py_error + Risk list" where
  "rule_missing rt scopes cfg regexes =
     (case or_else (Inr (has_intent rt scopes cfg ''net_content_intent''))
             (or_else (has_regex scopes regexes ''net_content_value'')
                      (has_regex scopes regexes ''net_content_multi'')) of
        Inl e \<Rightarrow> Inl e
      | Inr net \<Rightarrow>
     (let risks1 =
            (if \<not> net
             then [make_risk (lit ''missing_net_content'') NA NA
                     (lit ''Net content field not observed'')
                     (lit ''No net content intent keywords or value patterns were detected in the extracted text'')]
             else []);
          risks2 = risks1 @
            (if \<not> title_ok scopes
             then [make_risk (lit ''missing_product_name'') NA NA
                     (lit ''Product name (title) not observed'')
                     (lit ''No valid title block was detected or title content is extremely short'')]
             else []);
          risks3 = risks2 @
            (if \<not> (has_intent rt scopes cfg ''ingredient_intent''
                    \<or> has_block_type scopes (lit ''ingredient''))
             then [make_risk (lit ''missing_ingredient_list'') NA NA
                     (lit ''Ingredient list not observed'')
                     (lit ''No ingredient intent keywords or ingredient block was detected'')]
             else []);
          risks4 = risks3 @
            (if \<not> (has_intent rt scopes cfg ''producer_intent''
                    \<or> has_block_type scopes (lit ''producer''))
             then [make_risk (lit ''missing_manufacturer_info'') NA NA
                     (lit ''Producer/manufacturer information not observed'')
                     (lit ''No producer intent keywords or producer block was detected'')]
             else [])
      in
     (case or_else (Inr (has_intent rt scopes cfg ''date_shelf_life_intent''
                         \<or> has_block_type scopes (lit ''date_shelf_life'')))
             (or_else (has_regex scopes regexes ''date_ymd_numeric'')
                      (has_regex scopes regexes ''date_ymd_cn'')) of
        Inl e \<Rightarrow> Inl e
      | Inr date \<Rightarrow>
     (let risks5 = risks4 @
            (if \<not> date
             then [make_risk (lit ''missing_date_shelf_life'') NA NA
                     (lit ''Date or shelf-life information not observed'')
                     (lit ''No date/shelf-life intent keywords or date patterns were detected'')]
             else [])
      in
     (case or_else (Inr (has_intent rt scopes cfg ''standard_label_intent''
                         \<or> has_block_type scopes (lit ''standard'')))
             (has_regex scopes regexes ''standard_code'') of
        Inl e \<Rightarrow> Inl e
      | Inr std \<Rightarrow>
     (let risks6 = risks5 @
            (if \<not> std
             then [make_risk (lit ''missing_standard_code'') NA NA
                     (lit ''Standard code not observed'')
                     (lit ''No standard label intent keywords, standard block, or standard code pattern was detected'')]
             else [])
      in
     (case or_else (Inr (has_intent rt scopes cfg ''license_label_intent''
                         \<or> has_block_type scopes (lit ''license'')))
             (has_regex scopes regexes ''sc_code'') of
        Inl e \<Rightarrow> Inl e
      | Inr lic \<Rightarrow>
          Inr (risks6 @
            (if \<not> lic
             then [make_risk (lit ''missing_production_license'') NA NA
                     (lit ''Production license (SC) not observed'')
                     (lit ''No license intent keywords, license block, or SC code pattern was detected'')]
             else [])))))))))"

subsection \<open>Format-consistency rules\<close>

fun find_block_containing_snippet :: "Block list \<Rightarrow> ustr \<Rightarrow> int \<Rightarrow> ustr option" where
  "find_block_containing_snippet [] snippet page = None"
| "find_block_containing_snippet (b # bs) snippet page =
     (if source_page b = page \<and> b_text_raw b \<noteq> [] \<and> sublist snippet (b_text_raw b)
      then Some (block_id b)
      else find_block_containing_snippet bs snippet page)"

text \<open>\<open>bool(rx and regex_find_any(raw, rx))\<close> for the result of \<open>regexes.get(...)\<close>.\<close>

definition rx_matches :: "RegexPattern option \<Rightarrow> ustr \<Rightarrow> py_error + bool" where
  "rx_matches rx raw =
     (case rx of
        None \<Rightarrow> Inr False
      | Some r \<Rightarrow> (case regex_find_any raw r of Inl e \<Rightarrow> Inl e | Inr ms \<Rightarrow> Inr (ms \<noteq> [])))"

text \<open>
  One unit-case finding: the snippet \<open>pick_evidence_snippet_for_regex(raw, rx) if rx else
  fallback\<close> and, \<open>if snippet\<close>, the finding appended for it.
\<close>

definition unit_case_risk ::
  "Block list \<Rightarrow> int \<Rightarrow> ustr \<Rightarrow> RegexPattern option \<Rightarrow> ustr \<Rightarrow> ustr \<Rightarrow> py_error + Risk list" where
  "unit_case_risk bs page raw rx fallback logic =
     (case (case rx of
              None \<Rightarrow> Inr (Some fallback)
            | Some r \<Rightarrow> pick_evidence_snippet_for_regex raw r) of
        Inl e \<Rightarrow> Inl e
      | Inr None \<Rightarrow> Inr []
      | Inr (Some snippet) \<Rightarrow>
          if snippet = [] then Inr []
          else Inr [make_risk (lit ''format_unit_case_inconsistent'')
                      (or_str (find_block_containing_snippet bs snippet page) NA)
                      snippet
                      (lit ''Unit casing appears inconsistent within the same page scope'')
                      logic])"

text \<open>
  The body of each of the four loops \<open>for page, raw in page_text_raw.items()\<close>: the
  findings one page appends, or the exception it raises.
\<close>

definition unit_case_page ::
  "Block list \<Rightarrow> (string \<rightharpoonup> RegexPattern) \<Rightarrow> int \<times> ustr \<Rightarrow> py_error + Risk list" where
  "unit_case_page bs regexes pr =
     (let page = fst pr; raw = snd pr;
          rx_ml_upper = regexes ''unit_ml_upper''; rx_ml_mixed = regexes ''unit_ml_mixed'';
          rx_l_upper = regexes ''unit_l_upper''; rx_l_lower = regexes ''unit_l_lower''
      in case rx_matches rx_ml_upper raw of Inl e \<Rightarrow> Inl e | Inr has_upper \<Rightarrow>
         case rx_matches rx_ml_mixed raw of Inl e \<Rightarrow> Inl e | Inr has_mixed \<Rightarrow>
         case (if has_upper \<and> has_mixed
               then unit_case_risk bs page raw rx_ml_upper (lit ''ML'')
                      (lit ''Multiple casing variants for the same unit were detected in the same scope'')
               else Inr []) of Inl e \<Rightarrow> Inl e | Inr risks_ml \<Rightarrow>
         case rx_matches rx_l_upper raw of Inl e \<Rightarrow> Inl e | Inr has_L \<Rightarrow>
         case rx_matches rx_l_lower raw of Inl e \<Rightarrow> Inl e | Inr has_l \<Rightarrow>
         case (if has_L \<and> has_l
               then unit_case_risk bs page raw rx_l_lower (lit ''l'')
                      (lit ''Both uppercase and lowercase variants of the same unit were detected in the same scope'')
               else Inr []) of Inl e \<Rightarrow> Inl e | Inr risks_l \<Rightarrow>
           Inr (risks_ml @ risks_l))"

definition net_content_page ::
  "py_runtime \<Rightarrow> Block list \<Rightarrow> Config \<Rightarrow> (string \<rightharpoonup> RegexPattern) \<Rightarrow> int \<times> ustr
     \<Rightarrow> py_error + Risk list" where
  "net_content_page rt bs cfg regexes pr =
     (let page = fst pr; raw = snd pr;
          kws_net = get_intent_keywords cfg ''net_content_intent'';
          raw_norm = normalize_for_match rt raw cfg;
          has_label = intent_match_any rt raw_norm kws_net cfg
      in case rx_matches (regexes ''net_content_value'') raw of Inl e \<Rightarrow> Inl e | Inr has_value \<Rightarrow>
         case rx_matches (regexes ''net_content_multi'') raw of Inl e \<Rightarrow> Inl e | Inr has_multi \<Rightarrow>
         if has_label \<and> \<not> (has_value \<or> has_multi)
         then (let snippet = or_str (first_keyword_snippet rt raw kws_net cfg) [20928, 21547, 37327]
               in Inr [make_risk (lit ''format_net_content_pattern_unusual'')
                         (or_str (find_block_containing_snippet bs snippet page) NA)
                         snippet
                         (lit ''Net content label observed but value pattern not detected'')
                         (lit ''Net content-related label keyword was detected, but no numeric value+unit pattern was matched in the same scope'')])
         else Inr [])"

definition standard_code_page ::
  "py_runtime \<Rightarrow> Block list \<Rightarrow> Config \<Rightarrow> (string \<rightharpoonup> RegexPattern) \<Rightarrow> int \<times> ustr
     \<Rightarrow> py_error + Risk list" where
  "standard_code_page rt bs cfg regexes pr =
     (let page = fst pr; raw = snd pr;
          kws_std = get_intent_keywords cfg ''standard_label_intent'';
          raw_norm = normalize_for_match rt raw cfg;
          has_label = intent_match_any rt raw_norm kws_std cfg
      in case rx_matches (regexes ''standard_code'') raw of Inl e \<Rightarrow> Inl e | Inr has_code \<Rightarrow>
         if has_label \<and> \<not> has_code
         then (let snippet = or_str (first_keyword_snippet rt raw kws_std cfg)
                               [25191, 34892, 26631, 20934]
               in Inr [make_risk (lit ''format_standard_code_pattern_unusual'')
                         (or_str (find_block_containing_snippet bs snippet page) NA)
                         snippet
                         (lit ''Standard label observed but standard code pattern not detected'')
                         (lit ''Standard-related label keyword was detected, but no standard-code-like token was matched in the same scope'')])
         else Inr [])"

definition license_code_page ::
  "py_runtime \<Rightarrow> Block list \<Rightarrow> Config \<Rightarrow> (string \<rightharpoonup> RegexPattern) \<Rightarrow> int \<times> ustr
     \<Rightarrow> py_error + Risk list" where
  "license_code_page rt bs cfg regexes pr =
     (let page = fst pr; raw = snd pr;
          kws_lic = get_intent_keywords cfg ''license_label_intent'';
          raw_norm = normalize_for_match rt raw cfg;
          has_label = intent_match_any rt raw_norm kws_lic cfg
      in case rx_matches (regexes ''sc_code'') raw of Inl e \<Rightarrow> Inl e | Inr has_sc \<Rightarrow>
         if has_label \<and> \<not> has_sc
         then (let snippet = or_str (first_keyword_snippet rt raw kws_lic cfg) (lit ''SC'')
               in Inr [make_risk (lit ''format_license_code_pattern_unusual'')
                         (or_str (find_block_containing_snippet bs snippet page) NA)
                         snippet
                         (lit ''License label observed but SC code pattern not detected'')
                         (lit ''License-related label keyword was detected, but no SC-code-like token was matched in the same scope'')])
         else Inr [])"

text \<open>
  A loop \<open>for x in xs: ... risks.append(...)\<close> over a body that yields the findings it
  appends: the loop stops at the first exception of its body.
\<close>

fun append_each ::
  "('a \<Rightarrow> py_error + Risk list) \<Rightarrow> 'a list \<Rightarrow> Risk list \<Rightarrow> py_error + Risk list" where
  "append_each body [] risks = Inr risks"
| "append_each body (x # xs) risks =
     (case body x of Inl e \<Rightarrow> Inl e | Inr new \<Rightarrow> append_each body xs (risks @ new))"

definition rule_format ::
  "py_runtime \<Rightarrow> Scopes \<Rightarrow> Config \<Rightarrow> (string \<rightharpoonup> RegexPattern) \<Rightarrow> py_error + Risk list" where
  "rule_format rt scopes cfg regexes =
     (let bs = blocks scopes; pages = page_text_raw scopes
      in case append_each (unit_case_page bs regexes) pages [] of
           Inl e \<Rightarrow> Inl e | Inr risks1 \<Rightarrow>
         case append_each (net_content_page rt bs cfg regexes) pages risks1 of
           Inl e \<Rightarrow> Inl e | Inr risks2 \<Rightarrow>
         case append_each (standard_code_page rt bs cfg regexes) pages risks2 of
           Inl e \<Rightarrow> Inl e | Inr risks3 \<Rightarrow>
         append_each (license_code_page rt bs cfg regexes) pages risks3)"

subsection \<open>Relationship rules\<close>

fun pick_first_keyword_evidence_in_blocks ::
  "py_runtime \<Rightarrow> Block list \<Rightarrow> ustr list \<Rightarrow> Config \<Rightarrow> ustr option \<times> ustr option" where
  "pick_first_keyword_evidence_in_blocks rt [] keywords cfg = (None, None)"
| "pick_first_keyword_evidence_in_blocks rt (b # bs) keywords cfg =
     (if b_text_raw b = [] then pick_first_keyword_evidence_in_blocks rt bs keywords cfg
      else (case first_keyword_snippet rt (b_text_raw b) keywords cfg of
              Some sn \<Rightarrow> (Some sn, Some (block_id b))
            | None \<Rightarrow> pick_first_keyword_evidence_in_blocks rt bs keywords cfg))"

text \<open>\<open>int(thresholds.get(key, 1) or 1)\<close>.\<close>

definition threshold :: "Config \<Rightarrow> string \<Rightarrow> int" where
  "threshold cfg key =
     (case thresholds cfg key of None \<Rightarrow> 1 | Some v \<Rightarrow> if v = 0 then 1 else v)"

definition weak_count :: "py_runtime \<Rightarrow> ustr \<Rightarrow> ustr list \<Rightarrow> Config \<Rightarrow> nat" where
  "weak_count rt global_norm kws_weak cfg =
     foldl (\<lambda>n kw. let kw_norm = normalize_for_match rt kw cfg
                   in if kw_norm \<noteq> [] then n + str_count global_norm kw_norm else n)
       0 kws_weak"

text \<open>
  The loop over the blocks of the weak trigger: \<open>continue\<close> is the recursive call,
  \<open>break\<close> after the finding ends the scan. \<open>kws_weak[0]\<close> is read only after some weak
  keyword was found in the block, so the list is not empty there.
\<close>

fun weak_scan ::
  "py_runtime \<Rightarrow> Config \<Rightarrow> ustr list \<Rightarrow> ustr list \<Rightarrow> int \<Rightarrow> Block list \<Rightarrow> Risk list" where
  "weak_scan rt cfg kws_weak kws_producer prod_min [] = []"
| "weak_scan rt cfg kws_weak kws_producer prod_min (b # bs) =
     (let b_norm = normalize_for_match rt (b_text_raw b) cfg;
          contains_weak = list_ex (\<lambda>kw. sublist (normalize_for_match rt kw cfg) b_norm) kws_weak
      in if \<not> contains_weak then weak_scan rt cfg kws_weak kws_producer prod_min bs
         else (let hits = length (filter (\<lambda>kwp. normalize_for_match rt kwp cfg \<noteq> []
                                   \<and> sublist (normalize_for_match rt kwp cfg) b_norm) kws_producer)
               in if prod_min \<le> int hits
                  then [make_risk (lit ''entrusted_context_ambiguous'')
                          (block_id b)
                          (or_str (first_keyword_snippet rt (b_text_raw b) kws_weak cfg)
                             (case kws_weak of [] \<Rightarrow> [] | k # ks \<Rightarrow> k))
                          (lit ''Ambiguous entrust-production wording observed in producer context'')
                          (lit ''Weak entrust keywords were detected in a producer-context block, while no principal-party keywords were detected; this is treated as an ambiguous relationship signal'')]
                  else weak_scan rt cfg kws_weak kws_producer prod_min bs))"

definition rule_relationship ::
  "py_runtime \<Rightarrow> Scopes \<Rightarrow> Config \<Rightarrow> (string \<rightharpoonup> RegexPattern) \<Rightarrow> Risk list" where
  "rule_relationship rt scopes cfg regexes =
     (let bs = blocks scopes;
          global_norm = normalize_for_match rt (global_text_raw scopes) cfg;
          kws_principal = get_intent_keywords cfg ''principal_party_intent'';
          kws_strong = get_intent_keywords cfg ''entrusted_party_strong_intent'';
          kws_weak = get_intent_keywords cfg ''entrusted_party_weak_intent'';
          kws_producer = get_intent_keywords cfg ''producer_intent'';
          has_principal = intent_match_any rt global_norm kws_principal cfg;
          has_strong = intent_match_any rt global_norm kws_strong cfg
      in if has_strong \<and> \<not> has_principal
         then (let found = pick_first_keyword_evidence_in_blocks rt bs kws_strong cfg;
                   snippet = (case kws_strong of
                                [] \<Rightarrow> [21463, 22996, 25176, 29983, 20135]
                              | k # ks \<Rightarrow> or_str (fst found) k);
                   bid = or_str (snd found) NA
               in [make_risk (lit ''incomplete_entrust_relationship'') bid snippet
                     (lit ''Entrust-production context observed but principal party not observed'')
                     (lit ''Strong entrust-production keywords were detected, but no principal-party keywords were detected in the extracted text'')])
         else if \<not> has_strong \<and> \<not> has_principal
         then (let weak_max = threshold cfg ''entrust_weak_trigger_max_count'';
                   prod_min = threshold cfg ''producer_context_keyword_min_hits_for_weak_entrust'';
                   wc = weak_count rt global_norm kws_weak cfg
               in if 0 < wc \<and> int wc \<le> weak_max
                  then weak_scan rt cfg kws_weak kws_producer prod_min bs
                  else [])
         else [])"

section \<open>Deduplication\<close>

definition dedup_key :: "Risk \<Rightarrow> ustr" where
  "dedup_key r =
     (let rt = risk_type r; sn = raw_snippet (evidence r)
      in if sn = NA then rt else rt @ lit ''||'' @ normalize_for_dedup_key sn)"

text \<open>One pass of the loop of \<open>deduplicate\<close> on the state \<open>(seen, out)\<close>.\<close>

definition dedup_step :: "ustr set \<times> Risk list \<Rightarrow> Risk \<Rightarrow> ustr set \<times> Risk list" where
  "dedup_step st r =
     (if dedup_key r \<in> fst st then st
      else (insert (dedup_key r) (fst st), snd st @ [r]))"

definition deduplicate :: "Risk list \<Rightarrow> Risk list" where
  "deduplicate risks = snd (foldl dedup_step ({}, []) risks)"

section \<open>Engine\<close>

record EngineResult =
  system_version :: ustr
  result_module_name :: ustr
  module_version :: ustr
  spec_version :: ustr
  result_dict_version :: ustr
  schema_version :: ustr
  result_detection_method :: ustr
  risk_list :: "Risk list"

definition run_engine :: "py_runtime \<Rightarrow> json \<Rightarrow> Config \<Rightarrow> py_error + EngineResult" where
  "run_engine rt block_extractor_json patterns_cfg =
     (case load_block_extractor_output rt block_extractor_json of
        Inl e \<Rightarrow> Inl e
      | Inr lb \<Rightarrow>
          (let scopes = build_scopes (fst lb) (snd lb);
               regexes = compile_regexes patterns_cfg
           in case rule_missing rt scopes patterns_cfg regexes of
                Inl e \<Rightarrow> Inl e
              | Inr missing \<Rightarrow>
             (case rule_format rt scopes patterns_cfg regexes of
                Inl e \<Rightarrow> Inl e
              | Inr format \<Rightarrow>
                 (let risks = missing @ format
                              @ rule_relationship rt scopes patterns_cfg regexes
                  in Inr \<lparr>system_version = lit ''v1.0.0-alpha'',
                          result_module_name = lit ''DeterministicRuleEngine'',
                          module_version = lit ''v1.0.0-alpha'',
                          spec_version = lit ''v1.0.0-alpha'',
                          result_dict_version =
                            (case dict_version patterns_cfg of
                               None \<Rightarrow> lit ''v1.0.0-alpha'' | Some v \<Rightarrow> v),
                          schema_version = lit ''draft-2020-12'',
                          result_detection_method = DETECTION_METHOD,
                          risk_list = deduplicate risks\<rparr>))))"

section \<open>Properties and concrete inputs\<close>

text \<open>
  The findings of a run: the \<open>risk_list\<close> of the result, and no finding when the run
  raises. A finding is summarised by its type, the block it names and its snippet.
\<close>

definition engine_risks :: "py_runtime \<Rightarrow> json \<Rightarrow> Config \<Rightarrow> Risk list" where
  "engine_risks rt d c = (case run_engine rt d c of Inl e \<Rightarrow> [] | Inr res \<Rightarrow> risk_list res)"

definition finding_summary :: "Risk \<Rightarrow> ustr \<times> ustr \<times> ustr" where
  "finding_summary r = (risk_type r, ev_block_id (evidence r), raw_snippet (evidence r))"

text \<open>
  Evidence integrity of one finding with respect to the loaded blocks: some block carries
  the \<open>block_id\<close> of the finding and contains the snippet as a contiguous substring of
  its \<open>text_raw\<close>. The property is violated by a finding whose snippet is not \<open>"N/A"\<close>
  and for which there is no such block.
\<close>

definition evidence_in_block :: "Block list \<Rightarrow> Risk \<Rightarrow> bool" where
  "evidence_in_block bs r =
     list_ex (\<lambda>b. block_id b = ev_block_id (evidence r)
                 \<and> sublist (raw_snippet (evidence r)) (b_text_raw b)) bs"

definition evidence_violated :: "Block list \<Rightarrow> Risk \<Rightarrow> bool" where
  "evidence_violated bs r \<longleftrightarrow> raw_snippet (evidence r) \<noteq> NA \<and> \<not> evidence_in_block bs r"

text \<open>The seven missing-field risk types, in the order in which \<open>rule_missing\<close> tests them.\<close>

definition seven_missing_types :: "ustr list" where
  "seven_missing_types =
     [lit ''missing_net_content'', lit ''missing_product_name'', lit ''missing_ingredient_list'',
      lit ''missing_manufacturer_info'', lit ''missing_date_shelf_life'',
      lit ''missing_standard_code'', lit ''missing_production_license'']"




text \<open>
  The outcomes of a loop body for every element of a list, in order, or the first
  exception.
\<close>

fun outcomes :: "('a \<Rightarrow> py_error + 'b) \<Rightarrow> 'a list \<Rightarrow> py_error + 'b list" where
  "outcomes body [] = Inr []"
| "outcomes body (x # xs) =
     (case body x of Inl e \<Rightarrow> Inl e | Inr y \<Rightarrow>
      case outcomes body xs of Inl e \<Rightarrow> Inl e | Inr ys \<Rightarrow> Inr (y # ys))"

text \<open>
  In every block that carries the \<open>block_id\<close> of the finding, some weak entrustment
  keyword can be located in the original text (\<open>pick_evidence_snippet_for_keyword\<close>
  returns a snippet for it).
\<close>

definition weak_keyword_located :: "py_runtime \<Rightarrow> Config \<Rightarrow> Block list \<Rightarrow> Risk \<Rightarrow> bool" where
  "weak_keyword_located rt cfg bs r =
     list_all (\<lambda>b. block_id b = ev_block_id (evidence r) \<longrightarrow>
                 first_keyword_snippet rt (b_text_raw b)
                   (get_intent_keywords cfg ''entrusted_party_weak_intent'') cfg \<noteq> None) bs"

text \<open>
  The \<open>source_page\<close> entry of an item: absent or falsy (\<open>None\<close>, \<open>0\<close>, \<open>0.0\<close>, \<open>False\<close>,
  an empty string, list or dictionary); a value that \<open>int\<close> accepts (an integer, a
  boolean, a finite float, a string that \<open>int\<close> can parse); an item that the loader
  accepts is a dictionary whose page is absent, falsy or accepted by \<open>int\<close>.
\<close>

definition page_absent_or_falsy :: "(ustr \<times> json) list \<Rightarrow> bool" where
  "page_absent_or_falsy kvs =
     (case map_of kvs (lit ''source_page'') of None \<Rightarrow> True | Some v \<Rightarrow> \<not> truthy v)"



subsection \<open>Concrete inputs\<close>

text \<open>
  A runtime for ASCII inputs (its four components are never consulted on them), the
  configuration with nothing switched on, and constructors for block objects of a
  document and for loaded blocks.
\<close>

definition rt_ascii :: py_runtime where
  "rt_ascii = \<lparr>lower_other = (\<lambda>s. s), search_ic_other = (\<lambda>kw t. None),
               int_other = (\<lambda>s. None), str_other = (\<lambda>v. [])\<rparr>"

definition cfg_empty :: Config where
  "cfg_empty = \<lparr>fullwidth_to_halfwidth = False, collapse_whitespace = False,
      lowercase_for_match = False, regex = [], intents = Map.empty, thresholds = Map.empty,
      dict_version = None\<rparr>"

definition block_obj :: "string \<Rightarrow> string \<Rightarrow> string \<Rightarrow> int \<Rightarrow> json" where
  "block_obj i ty t p =
     JObj [(lit ''block_id'', JStr (lit i)), (lit ''block_type'', JStr (lit ty)),
           (lit ''text_raw'', JStr (lit t)), (lit ''source_page'', JInt p)]"

definition mk_block :: "string \<Rightarrow> string \<Rightarrow> string \<Rightarrow> int \<Rightarrow> Block" where
  "mk_block i ty t p =
     \<lparr>block_id = lit i, block_type = lit ty, b_text_raw = lit t, source_page = p\<rparr>"

text \<open>
  A label whose net-content keyword is split over two blocks: the page text holds
  \<open>net\<close>, a line break and \<open>weight 500\<close>, which matches the keyword \<open>net weight\<close> once
  white space is collapsed, while no block and no raw text contains the keyword.
\<close>

definition doc_split :: json where
  "doc_split = JObj [(lit ''raw_text_lines'', JArr []),
     (lit ''blocks'', JArr [block_obj ''b1'' ''body'' ''net'' 1,
                            block_obj ''b2'' ''body'' ''weight 500'' 1])]"

definition blocks_split :: "Block list" where
  "blocks_split = [mk_block ''b1'' ''body'' ''net'' 1, mk_block ''b2'' ''body'' ''weight 500'' 1]"

definition cfg_split :: Config where
  "cfg_split = cfg_empty\<lparr>collapse_whitespace := True,
      intents := [''net_content_intent'' \<mapsto> [lit ''net weight'']]\<rparr>"

text \<open>
  A producer block with two spaces inside the weak entrustment wording \<open>made for\<close>.
\<close>

definition doc_weak :: json where
  "doc_weak = JObj [(lit ''blocks'',
     JArr [block_obj ''b1'' ''producer'' ''made  for ACME factory'' 1])]"

definition blocks_weak :: "Block list" where
  "blocks_weak = [mk_block ''b1'' ''producer'' ''made  for ACME factory'' 1]"

definition cfg_weak :: Config where
  "cfg_weak = cfg_empty\<lparr>collapse_whitespace := True,
      intents := [''entrusted_party_weak_intent'' \<mapsto> [lit ''made for''],
                  ''producer_intent'' \<mapsto> [lit ''factory'']]\<rparr>"

text \<open>A label with a net-content keyword in another letter case and no value.\<close>

definition doc_label :: json where
  "doc_label = JObj [(lit ''blocks'',
     JArr [block_obj ''b1'' ''body'' ''Net weight: see bottom'' 1])]"

definition blocks_label :: "Block list" where
  "blocks_label = [mk_block ''b1'' ''body'' ''Net weight: see bottom'' 1]"

definition cfg_label :: Config where
  "cfg_label = cfg_empty\<lparr>lowercase_for_match := True,
      intents := [''net_content_intent'' \<mapsto> [lit ''net weight'']]\<rparr>"

definition risk_label :: Risk where
  "risk_label =
     make_risk (lit ''format_net_content_pattern_unusual'') (lit ''b1'') (lit ''Net weight'')
       (lit ''Net content label observed but value pattern not detected'')
       (lit ''Net content-related label keyword was detected, but no numeric value+unit pattern was matched in the same scope'')"

text \<open>
  The items that the loader iterates for one key of the document, \<open>data.get(key, []) or []\<close>:
  whether that value can be iterated at all, and its elements.
\<close>

definition entry_iterable :: "json \<Rightarrow> ustr \<Rightarrow> bool" where
  "entry_iterable doc key =
     (case dict_get doc key (JArr []) of
        Inl e \<Rightarrow> False
      | Inr v \<Rightarrow> (case py_iter (py_or v (JArr [])) of Inl e \<Rightarrow> False | Inr xs \<Rightarrow> True))"

definition items_of :: "json \<Rightarrow> ustr \<Rightarrow> json list" where
  "items_of doc key =
     (case dict_get doc key (JArr []) of
        Inl e \<Rightarrow> []
      | Inr v \<Rightarrow> (case py_iter (py_or v (JArr [])) of Inl e \<Rightarrow> [] | Inr xs \<Rightarrow> xs))"

text \<open>Documents for the loader: a line object, and documents with and without lines.\<close>

definition line_obj :: "string \<Rightarrow> string \<Rightarrow> json \<Rightarrow> json" where
  "line_obj i t p =
     JObj [(lit ''line_id'', JStr (lit i)), (lit ''text'', JStr (lit t)),
           (lit ''source_page'', p)]"

definition doc_no_blocks :: json where
  "doc_no_blocks = JObj [(lit ''raw_text_lines'', JArr []), (lit ''blocks'', JArr [])]"

definition doc_bad_line :: json where
  "doc_bad_line =
     JObj [(lit ''raw_text_lines'', JArr [line_obj ''l1'' ''Milk'' (JStr (lit ''abc''))]),
           (lit ''blocks'', JArr [])]"

definition doc_label_lines :: json where
  "doc_label_lines =
     JObj [(lit ''raw_text_lines'', JArr [line_obj ''l1'' ''Net weight 500 g'' (JInt 1)]),
           (lit ''blocks'', JArr [block_obj ''b1'' ''body'' ''Net weight: see bottom'' 1])]"

definition lines_label :: "Line list" where
  "lines_label = [\<lparr>line_id = lit ''l1'', line_text = lit ''Net weight 500 g'',
                   line_source_page = 1\<rparr>]"







definition kvs_page_zero :: "(ustr \<times> json) list" where
  "kvs_page_zero = [(lit ''block_id'', JStr (lit ''b1'')), (lit ''line_id'', JStr (lit ''l1'')),
                    (lit ''source_page'', JInt 0)]"

definition doc_page_zero :: json where
  "doc_page_zero = JObj [(lit ''raw_text_lines'', JArr [JObj kvs_page_zero]),
                         (lit ''blocks'', JArr [JObj kvs_page_zero])]"

subsection \<open>Duplicates\<close>



subsection \<open>Further concrete inputs\<close>

text \<open>A producer block with strong entrustment wording and no principal party.\<close>

definition blocks_strong :: "Block list" where
  "blocks_strong = [mk_block ''b1'' ''producer'' ''Entrusted by ACME'' 1]"

definition cfg_strong :: Config where
  "cfg_strong = cfg_empty\<lparr>lowercase_for_match := True,
      intents := [''entrusted_party_strong_intent'' \<mapsto> [lit ''entrusted by''],
                  ''principal_party_intent'' \<mapsto> [lit ''principal'']]\<rparr>"






text \<open>
  A producer block with weak entrustment wording in another letter case: the keyword
  \<open>made for\<close> is located in the original text as \<open>Made for\<close>.
\<close>

definition doc_made_for :: json where
  "doc_made_for = JObj [(lit ''blocks'',
     JArr [block_obj ''b1'' ''producer'' ''Made for ACME factory'' 1])]"

definition blocks_made_for :: "Block list" where
  "blocks_made_for = [mk_block ''b1'' ''producer'' ''Made for ACME factory'' 1]"

definition cfg_made_for :: Config where
  "cfg_made_for = cfg_empty\<lparr>lowercase_for_match := True,
      intents := [''entrusted_party_weak_intent'' \<mapsto> [lit ''made for''],
                  ''producer_intent'' \<mapsto> [lit ''factory'']]\<rparr>"

definition risk_made_for :: Risk where
  "risk_made_for =
     make_risk (lit ''entrusted_context_ambiguous'') (lit ''b1'') (lit ''Made for'')
       (lit ''Ambiguous entrust-production wording observed in producer context'')
       (lit ''Weak entrust keywords were detected in a producer-context block, while no principal-party keywords were detected; this is treated as an ambiguous relationship signal'')"

text \<open>
  Two blocks that arrive with page 2 before page 1, and two blocks in ascending page
  order of which the first has a standard label and the second a net-content label.
\<close>

definition doc_pages :: json where
  "doc_pages = JObj [(lit ''blocks'',
     JArr [block_obj ''b1'' ''body'' ''net B'' 2, block_obj ''b2'' ''body'' ''net A'' 1])]"

definition blocks_pages :: "Block list" where
  "blocks_pages = [mk_block ''b1'' ''body'' ''net B'' 2, mk_block ''b2'' ''body'' ''net A'' 1]"

definition cfg_pages :: Config where
  "cfg_pages = cfg_empty\<lparr>intents := [''net_content_intent'' \<mapsto> [lit ''net A'', lit ''net B'']]\<rparr>"

definition doc_rules :: json where
  "doc_rules = JObj [(lit ''blocks'',
     JArr [block_obj ''b1'' ''body'' ''standard X'' 1, block_obj ''b2'' ''body'' ''net B'' 2])]"

definition blocks_rules :: "Block list" where
  "blocks_rules = [mk_block ''b1'' ''body'' ''standard X'' 1, mk_block ''b2'' ''body'' ''net B'' 2]"

definition cfg_rules :: Config where
  "cfg_rules = cfg_empty\<lparr>intents := [''net_content_intent'' \<mapsto> [lit ''net B''],
                                       ''standard_label_intent'' \<mapsto> [lit ''standard'']]\<rparr>"

section \<open>Lemmas\<close>


subsection \<open>Deduplication keeps the first finding of each key\<close>

lemma dedup_step_fst: "fst (foldl dedup_step (S, out) rs) = S \<union> dedup_key ` set rs"
  by (induction rs arbitrary: S out) (auto simp: dedup_step_def)

lemma foldl_dedup_snoc:
  "foldl dedup_step st (rs @ [r]) = dedup_step (foldl dedup_step st rs) r"
  by simp

lemma deduplicate_Nil: "deduplicate [] = []"
  by (simp add: deduplicate_def)

lemma deduplicate_snoc:
  "deduplicate (rs @ [r]) =
     (if dedup_key r \<in> dedup_key ` set rs then deduplicate rs else deduplicate rs @ [r])"
proof -
  obtain S out where st: "foldl dedup_step ({}, []) rs = (S, out)"
    by (cases "foldl dedup_step ({}, []) rs")
  have "S = dedup_key ` set rs"
    using dedup_step_fst [of "{}" "[]" rs] st by simp
  then show ?thesis
    by (simp add: deduplicate_def st dedup_step_def)
qed

lemma set_deduplicate: "set (deduplicate rs) \<subseteq> set rs"
  by (induction rs rule: rev_induct) (auto simp: deduplicate_Nil deduplicate_snoc)






subsection \<open>Missing-field rules\<close>

lemma risk_type_make_risk: "risk_type (make_risk t b s d l) = t"
  by (simp add: make_risk_def)

lemma evidence_make_risk:
  "evidence (make_risk t b s d l) = \<lparr>ev_block_id = b, raw_snippet = s\<rparr>"
  by (simp add: make_risk_def)









text \<open>
  The findings of a run of the missing-field rules that returns: one list per field, in
  the order of the source, each empty or a single finding without evidence.
\<close>

lemma rule_missing_Inr:
  assumes "rule_missing rt scopes cfg regexes = Inr risks"
  shows "\<exists>net date std lic d1 l1 d2 l2 d3 l3 d4 l4 d5 l5 d6 l6 d7 l7.
     risks =
       (if \<not> net then [make_risk (lit ''missing_net_content'') NA NA d1 l1] else [])
       @ (if \<not> title_ok scopes then [make_risk (lit ''missing_product_name'') NA NA d2 l2] else [])
       @ (if \<not> (has_intent rt scopes cfg ''ingredient_intent''
                 \<or> has_block_type scopes (lit ''ingredient''))
          then [make_risk (lit ''missing_ingredient_list'') NA NA d3 l3] else [])
       @ (if \<not> (has_intent rt scopes cfg ''producer_intent''
                 \<or> has_block_type scopes (lit ''producer''))
          then [make_risk (lit ''missing_manufacturer_info'') NA NA d4 l4] else [])
       @ (if \<not> date then [make_risk (lit ''missing_date_shelf_life'') NA NA d5 l5] else [])
       @ (if \<not> std then [make_risk (lit ''missing_standard_code'') NA NA d6 l6] else [])
       @ (if \<not> lic then [make_risk (lit ''missing_production_license'') NA NA d7 l7] else [])
     \<and> or_else (Inr (has_intent rt scopes cfg ''net_content_intent''))
          (or_else (has_regex scopes regexes ''net_content_value'')
                   (has_regex scopes regexes ''net_content_multi'')) = Inr net
     \<and> or_else (Inr (has_intent rt scopes cfg ''date_shelf_life_intent''
                      \<or> has_block_type scopes (lit ''date_shelf_life'')))
          (or_else (has_regex scopes regexes ''date_ymd_numeric'')
                   (has_regex scopes regexes ''date_ymd_cn'')) = Inr date
     \<and> or_else (Inr (has_intent rt scopes cfg ''standard_label_intent''
                      \<or> has_block_type scopes (lit ''standard'')))
          (has_regex scopes regexes ''standard_code'') = Inr std
     \<and> or_else (Inr (has_intent rt scopes cfg ''license_label_intent''
                      \<or> has_block_type scopes (lit ''license'')))
          (has_regex scopes regexes ''sc_code'') = Inr lic"
proof -
  from assms obtain net where net:
    "or_else (Inr (has_intent rt scopes cfg ''net_content_intent''))
          (or_else (has_regex scopes regexes ''net_content_value'')
                   (has_regex scopes regexes ''net_content_multi'')) = Inr net"
    unfolding rule_missing_def by (simp split: sum.splits)
  from assms net obtain date where date:
    "or_else (Inr (has_intent rt scopes cfg ''date_shelf_life_intent''
                      \<or> has_block_type scopes (lit ''date_shelf_life'')))
          (or_else (has_regex scopes regexes ''date_ymd_numeric'')
                   (has_regex scopes regexes ''date_ymd_cn'')) = Inr date"
    unfolding rule_missing_def Let_def by (simp split: sum.splits)
  from assms net date obtain std where std:
    "or_else (Inr (has_intent rt scopes cfg ''standard_label_intent''
                      \<or> has_block_type scopes (lit ''standard'')))
          (has_regex scopes regexes ''standard_code'') = Inr std"
    unfolding rule_missing_def Let_def by (simp split: sum.splits)
  from assms net date std obtain lic where lic:
    "or_else (Inr (has_intent rt scopes cfg ''license_label_intent''
                      \<or> has_block_type scopes (lit ''license'')))
          (has_regex scopes regexes ''sc_code'') = Inr lic"
    unfolding rule_missing_def Let_def by (simp split: sum.splits)
  from assms show ?thesis
    unfolding rule_missing_def Let_def net date std lic sum.case
    using net date std lic by (simp only: sum.inject append_assoc) blast
qed




lemma in_set_if_single: "r \<in> set (if c then [x] else []) \<Longrightarrow> r = x"
  by (cases c) simp_all

lemma rule_missing_NA:
  assumes "rule_missing rt scopes cfg regexes = Inr risks" and "r \<in> set risks"
  shows "evidence r = \<lparr>ev_block_id = NA, raw_snippet = NA\<rparr>"
proof -
  from rule_missing_Inr [OF assms(1)] obtain net date std lic d1 l1 d2 l2 d3 l3 d4 l4 d5 l5 d6 l6 d7 l7
    where risks: "risks =
       (if \<not> net then [make_risk (lit ''missing_net_content'') NA NA d1 l1] else [])
       @ (if \<not> title_ok scopes then [make_risk (lit ''missing_product_name'') NA NA d2 l2] else [])
       @ (if \<not> (has_intent rt scopes cfg ''ingredient_intent''
                 \<or> has_block_type scopes (lit ''ingredient''))
          then [make_risk (lit ''missing_ingredient_list'') NA NA d3 l3] else [])
       @ (if \<not> (has_intent rt scopes cfg ''producer_intent''
                 \<or> has_block_type scopes (lit ''producer''))
          then [make_risk (lit ''missing_manufacturer_info'') NA NA d4 l4] else [])
       @ (if \<not> date then [make_risk (lit ''missing_date_shelf_life'') NA NA d5 l5] else [])
       @ (if \<not> std then [make_risk (lit ''missing_standard_code'') NA NA d6 l6] else [])
       @ (if \<not> lic then [make_risk (lit ''missing_production_license'') NA NA d7 l7] else [])"
    by blast
  from assms(2) show ?thesis
    unfolding risks set_append Un_iff
    by (elim disjE) (auto dest!: in_set_if_single simp: evidence_make_risk)
qed



lemma count_from_Nil_text: "count_from kw n [] = 0"
  by simp










subsection \<open>Evidence snippets\<close>

lemma first_index_sublist: "first_index kw t = Some i \<Longrightarrow> sublist kw t"
proof (induction t arbitrary: i)
  case Nil
  then show ?case by (simp split: if_splits)
next
  case (Cons c t)
  show ?case
  proof (cases "prefix kw (c # t)")
    case True
    then show ?thesis by (rule prefix_imp_sublist)
  next
    case False
    with Cons.prems obtain j where "first_index kw t = Some j" by auto
    then have "sublist kw t" by (rule Cons.IH)
    then show ?thesis by (simp add: sublist_Cons_right)
  qed
qed

lemma first_index_complete: "sublist kw t \<Longrightarrow> first_index kw t \<noteq> None"
  by (induction t) (auto simp: sublist_Cons_right)

lemma str_find_iff: "str_find t kw \<noteq> - 1 \<longleftrightarrow> sublist kw t"
  using first_index_sublist [of kw t] first_index_complete [of kw t]
  by (auto simp: str_find_def split: option.splits)

lemma slice_sublist: "sublist (slice t s e) t"
proof -
  have "sublist (take (e - s) (drop s t)) (drop s t)" by (rule sublist_take)
  moreover have "sublist (drop s t) t" by (rule sublist_drop)
  ultimately show ?thesis
    unfolding slice_def by (rule sublist_order.order.trans)
qed

lemma pick_keyword_sublist:
  "pick_evidence_snippet_for_keyword rt t kw cfg = Some sn \<Longrightarrow> sublist sn t"
  by (auto simp: pick_evidence_snippet_for_keyword_def str_find_iff slice_sublist
      split: if_splits option.splits)

lemma pick_regex_sublist:
  "pick_evidence_snippet_for_regex t rx = Inr (Some sn) \<Longrightarrow> sublist sn t"
  by (auto simp: pick_evidence_snippet_for_regex_def slice_sublist
      split: if_splits list.splits sum.splits)

lemma first_keyword_snippet_sound:
  "first_keyword_snippet rt t kws cfg = Some sn \<Longrightarrow> sn \<noteq> [] \<and> sublist sn t"
  by (induction kws) (auto dest: pick_keyword_sublist split: option.splits if_splits)

lemma find_block_sound:
  "find_block_containing_snippet bs sn p = Some i \<Longrightarrow>
     \<exists>b\<in>set bs. block_id b = i \<and> source_page b = p \<and> sublist sn (b_text_raw b)"
  by (induction bs) (auto split: if_splits)

lemma or_str_NA_cases:
  "or_str x NA \<noteq> NA \<Longrightarrow> x = Some (or_str x NA)"
  by (auto simp: or_str_def split: option.splits if_splits)

lemma attributed_block:
  assumes "ev_block_id (evidence r) \<noteq> NA"
      and "evidence r = \<lparr>ev_block_id = or_str (find_block_containing_snippet bs sn p) NA,
                         raw_snippet = sn\<rparr>"
  shows "evidence_in_block bs r"
proof -
  from assms have "or_str (find_block_containing_snippet bs sn p) NA \<noteq> NA" by simp
  then have "find_block_containing_snippet bs sn p
               = Some (or_str (find_block_containing_snippet bs sn p) NA)"
    by (rule or_str_NA_cases)
  from find_block_sound [OF this] assms(2) show ?thesis
    by (auto simp: evidence_in_block_def list_ex_iff)
qed

text \<open>
  Every format finding names the block that \<open>find_block_containing_snippet\<close> returns for
  its snippet on its page, or \<open>"N/A"\<close>.
\<close>

lemma unit_case_risk_form:
  assumes "unit_case_risk bs page raw rx fallback logic = Inr rs" and "r \<in> set rs"
  shows "\<exists>sn. evidence r = \<lparr>ev_block_id = or_str (find_block_containing_snippet bs sn page) NA,
                         raw_snippet = sn\<rparr>"
  using assms
  by (auto simp: unit_case_risk_def evidence_make_risk
      split: sum.splits option.splits if_splits)

lemma if_Inr_Nil:
  "(if c then x else Inr []) = Inr rs \<Longrightarrow> r \<in> set rs \<Longrightarrow> x = Inr rs"
  by (cases c) simp_all

lemma unit_case_page_form:
  assumes "unit_case_page bs regexes pr = Inr rs" and "r \<in> set rs"
  shows "\<exists>sn. evidence r = \<lparr>ev_block_id = or_str (find_block_containing_snippet bs sn (fst pr)) NA,
                         raw_snippet = sn\<rparr>"
proof -
  from assms(1) obtain has_upper has_mixed has_L has_l rs_ml rs_l where
    ml: "(if has_upper \<and> has_mixed
          then unit_case_risk bs (fst pr) (snd pr) (regexes ''unit_ml_upper'') (lit ''ML'')
                 (lit ''Multiple casing variants for the same unit were detected in the same scope'')
          else Inr []) = Inr rs_ml"
    and l: "(if has_L \<and> has_l
          then unit_case_risk bs (fst pr) (snd pr) (regexes ''unit_l_lower'') (lit ''l'')
                 (lit ''Both uppercase and lowercase variants of the same unit were detected in the same scope'')
          else Inr []) = Inr rs_l"
    and rs: "rs = rs_ml @ rs_l"
    unfolding unit_case_page_def Let_def by (auto split: sum.splits)
  from assms(2) rs consider "r \<in> set rs_ml" | "r \<in> set rs_l" by auto
  then show ?thesis
  proof cases
    case 1
    from if_Inr_Nil [OF ml 1] 1 show ?thesis by (rule unit_case_risk_form)
  next
    case 2
    from if_Inr_Nil [OF l 2] 2 show ?thesis by (rule unit_case_risk_form)
  qed
qed

lemma net_content_page_form:
  "net_content_page rt bs cfg regexes pr = Inr rs \<Longrightarrow> r \<in> set rs \<Longrightarrow>
     \<exists>sn. evidence r = \<lparr>ev_block_id = or_str (find_block_containing_snippet bs sn (fst pr)) NA,
                         raw_snippet = sn\<rparr>"
  by (auto simp: net_content_page_def Let_def evidence_make_risk split: if_splits sum.splits)

lemma standard_code_page_form:
  "standard_code_page rt bs cfg regexes pr = Inr rs \<Longrightarrow> r \<in> set rs \<Longrightarrow>
     \<exists>sn. evidence r = \<lparr>ev_block_id = or_str (find_block_containing_snippet bs sn (fst pr)) NA,
                         raw_snippet = sn\<rparr>"
  by (auto simp: standard_code_page_def Let_def evidence_make_risk split: if_splits sum.splits)

lemma license_code_page_form:
  "license_code_page rt bs cfg regexes pr = Inr rs \<Longrightarrow> r \<in> set rs \<Longrightarrow>
     \<exists>sn. evidence r = \<lparr>ev_block_id = or_str (find_block_containing_snippet bs sn (fst pr)) NA,
                         raw_snippet = sn\<rparr>"
  by (auto simp: license_code_page_def Let_def evidence_make_risk split: if_splits sum.splits)

lemma unit_case_page_ok:
  "unit_case_page bs regexes pr = Inr rs \<Longrightarrow> r \<in> set rs \<Longrightarrow>
     ev_block_id (evidence r) \<noteq> NA \<Longrightarrow> evidence_in_block bs r"
  using attributed_block unit_case_page_form by blast

lemma net_content_page_ok:
  "net_content_page rt bs cfg regexes pr = Inr rs \<Longrightarrow> r \<in> set rs \<Longrightarrow>
     ev_block_id (evidence r) \<noteq> NA \<Longrightarrow> evidence_in_block bs r"
  using attributed_block net_content_page_form by blast

lemma standard_code_page_ok:
  "standard_code_page rt bs cfg regexes pr = Inr rs \<Longrightarrow> r \<in> set rs \<Longrightarrow>
     ev_block_id (evidence r) \<noteq> NA \<Longrightarrow> evidence_in_block bs r"
  using attributed_block standard_code_page_form by blast

lemma license_code_page_ok:
  "license_code_page rt bs cfg regexes pr = Inr rs \<Longrightarrow> r \<in> set rs \<Longrightarrow>
     ev_block_id (evidence r) \<noteq> NA \<Longrightarrow> evidence_in_block bs r"
  using attributed_block license_code_page_form by blast

text \<open>
  A loop returns exactly when its body returns for every element, and it then appends
  the findings of the elements in their order.
\<close>

lemma append_each_Inr:
  "append_each body xs risks = Inr out \<longleftrightarrow>
     (\<exists>rss. outcomes body xs = Inr rss \<and> out = risks @ concat rss)"
  by (induction xs arbitrary: risks) (auto split: sum.splits)

lemma outcomes_set:
  "outcomes body xs = Inr ys \<Longrightarrow> y \<in> set ys \<Longrightarrow> \<exists>x\<in>set xs. body x = Inr y"
  by (induction xs arbitrary: ys) (auto split: sum.splits)

lemma outcomes_nth:
  "outcomes body xs = Inr ys \<Longrightarrow>
     length ys = length xs \<and> (\<forall>i<length xs. body (xs ! i) = Inr (ys ! i))"
proof (induction xs arbitrary: ys)
  case Nil
  then show ?case by simp
next
  case (Cons x xs)
  from Cons.prems obtain y ys' where y: "body x = Inr y" "outcomes body xs = Inr ys'" "ys = y # ys'"
    by (auto split: sum.splits)
  from Cons.IH [OF y(2)] y show ?case
    by (auto simp: nth_Cons split: nat.splits)
qed

lemma outcomes_returns:
  "(\<exists>ys. outcomes body xs = Inr ys) \<longleftrightarrow> (\<forall>x\<in>set xs. \<exists>y. body x = Inr y)"
  by (induction xs) (auto split: sum.splits)

lemma rule_format_Inr:
  "rule_format rt scopes cfg regexes = Inr risks \<longleftrightarrow>
     (\<exists>us ns ss cs.
        outcomes (unit_case_page (blocks scopes) regexes) (page_text_raw scopes) = Inr us
        \<and> outcomes (net_content_page rt (blocks scopes) cfg regexes) (page_text_raw scopes) = Inr ns
        \<and> outcomes (standard_code_page rt (blocks scopes) cfg regexes) (page_text_raw scopes) = Inr ss
        \<and> outcomes (license_code_page rt (blocks scopes) cfg regexes) (page_text_raw scopes) = Inr cs
        \<and> risks = concat us @ concat ns @ concat ss @ concat cs)"
proof
  assume a: "rule_format rt scopes cfg regexes = Inr risks"
  let ?bs = "blocks scopes" and ?pages = "page_text_raw scopes"
  from a obtain r1 where 1: "append_each (unit_case_page ?bs regexes) ?pages [] = Inr r1"
    unfolding rule_format_def Let_def by (auto split: sum.splits)
  from a 1 obtain r2 where
    2: "append_each (net_content_page rt ?bs cfg regexes) ?pages r1 = Inr r2"
    unfolding rule_format_def Let_def by (auto split: sum.splits)
  from a 1 2 obtain r3 where
    3: "append_each (standard_code_page rt ?bs cfg regexes) ?pages r2 = Inr r3"
    unfolding rule_format_def Let_def by (auto split: sum.splits)
  from a 1 2 3 have
    4: "append_each (license_code_page rt ?bs cfg regexes) ?pages r3 = Inr risks"
    unfolding rule_format_def Let_def by simp
  from 1 2 3 4 show "\<exists>us ns ss cs.
        outcomes (unit_case_page ?bs regexes) ?pages = Inr us
        \<and> outcomes (net_content_page rt ?bs cfg regexes) ?pages = Inr ns
        \<and> outcomes (standard_code_page rt ?bs cfg regexes) ?pages = Inr ss
        \<and> outcomes (license_code_page rt ?bs cfg regexes) ?pages = Inr cs
        \<and> risks = concat us @ concat ns @ concat ss @ concat cs"
    unfolding append_each_Inr by auto
next
  assume "\<exists>us ns ss cs.
        outcomes (unit_case_page (blocks scopes) regexes) (page_text_raw scopes) = Inr us
        \<and> outcomes (net_content_page rt (blocks scopes) cfg regexes) (page_text_raw scopes) = Inr ns
        \<and> outcomes (standard_code_page rt (blocks scopes) cfg regexes) (page_text_raw scopes) = Inr ss
        \<and> outcomes (license_code_page rt (blocks scopes) cfg regexes) (page_text_raw scopes) = Inr cs
        \<and> risks = concat us @ concat ns @ concat ss @ concat cs"
  then obtain us ns ss cs where
    o: "outcomes (unit_case_page (blocks scopes) regexes) (page_text_raw scopes) = Inr us"
       "outcomes (net_content_page rt (blocks scopes) cfg regexes) (page_text_raw scopes) = Inr ns"
       "outcomes (standard_code_page rt (blocks scopes) cfg regexes) (page_text_raw scopes) = Inr ss"
       "outcomes (license_code_page rt (blocks scopes) cfg regexes) (page_text_raw scopes) = Inr cs"
    and r: "risks = concat us @ concat ns @ concat ss @ concat cs" by blast
  have 1: "append_each (unit_case_page (blocks scopes) regexes) (page_text_raw scopes) []
             = Inr (concat us)"
    using o(1) by (simp add: append_each_Inr)
  have 2: "append_each (net_content_page rt (blocks scopes) cfg regexes) (page_text_raw scopes)
             (concat us) = Inr (concat us @ concat ns)"
    using o(2) by (simp add: append_each_Inr)
  have 3: "append_each (standard_code_page rt (blocks scopes) cfg regexes) (page_text_raw scopes)
             (concat us @ concat ns) = Inr (concat us @ concat ns @ concat ss)"
    using o(3) by (simp add: append_each_Inr)
  have 4: "append_each (license_code_page rt (blocks scopes) cfg regexes) (page_text_raw scopes)
             (concat us @ concat ns @ concat ss) = Inr (concat us @ concat ns @ concat ss @ concat cs)"
    using o(4) by (simp add: append_each_Inr)
  show "rule_format rt scopes cfg regexes = Inr risks"
    unfolding rule_format_def Let_def by (simp add: 1 2 3 4 r)
qed

lemma rule_format_ok:
  assumes "rule_format rt scopes cfg regexes = Inr risks" and "r \<in> set risks"
      and "ev_block_id (evidence r) \<noteq> NA"
  shows "evidence_in_block (blocks scopes) r"
proof -
  from assms(1) obtain us ns ss cs where
    o: "outcomes (unit_case_page (blocks scopes) regexes) (page_text_raw scopes) = Inr us"
       "outcomes (net_content_page rt (blocks scopes) cfg regexes) (page_text_raw scopes) = Inr ns"
       "outcomes (standard_code_page rt (blocks scopes) cfg regexes) (page_text_raw scopes) = Inr ss"
       "outcomes (license_code_page rt (blocks scopes) cfg regexes) (page_text_raw scopes) = Inr cs"
    and r: "risks = concat us @ concat ns @ concat ss @ concat cs"
    unfolding rule_format_Inr by blast
  from assms(2) r consider rs where "rs \<in> set us" "r \<in> set rs"
    | rs where "rs \<in> set ns" "r \<in> set rs"
    | rs where "rs \<in> set ss" "r \<in> set rs"
    | rs where "rs \<in> set cs" "r \<in> set rs"
    by auto
  then show ?thesis
  proof cases
    case 1
    from outcomes_set [OF o(1) 1(1)] 1(2) assms(3) show ?thesis
      by (auto dest: unit_case_page_ok)
  next
    case 2
    from outcomes_set [OF o(2) 2(1)] 2(2) assms(3) show ?thesis
      by (auto dest: net_content_page_ok)
  next
    case 3
    from outcomes_set [OF o(3) 3(1)] 3(2) assms(3) show ?thesis
      by (auto dest: standard_code_page_ok)
  next
    case 4
    from outcomes_set [OF o(4) 4(1)] 4(2) assms(3) show ?thesis
      by (auto dest: license_code_page_ok)
  qed
qed

lemma pick_first_cases:
  "pick_first_keyword_evidence_in_blocks rt bs kws cfg = (None, None) \<or>
   (\<exists>sn b. pick_first_keyword_evidence_in_blocks rt bs kws cfg = (Some sn, Some (block_id b))
      \<and> b \<in> set bs \<and> sn \<noteq> [] \<and> sublist sn (b_text_raw b))"
  by (induction bs) (auto dest: first_keyword_snippet_sound split: option.splits)

lemma weak_scan_type:
  "r \<in> set (weak_scan rt cfg kws_weak kws_producer prod_min bs) \<Longrightarrow>
     risk_type r = lit ''entrusted_context_ambiguous''"
  by (induction bs) (auto simp: Let_def risk_type_make_risk split: if_splits)

text \<open>
  The weak finding names the block that triggered it; its snippet is cut from the text of
  that block when a weak keyword can be located there, and is the first weak keyword
  otherwise.
\<close>

lemma weak_scan_evidence:
  "r \<in> set (weak_scan rt cfg kws_weak kws_producer prod_min bs) \<Longrightarrow>
     \<exists>b\<in>set bs. evidence r =
        \<lparr>ev_block_id = block_id b,
         raw_snippet = or_str (first_keyword_snippet rt (b_text_raw b) kws_weak cfg)
                         (case kws_weak of [] \<Rightarrow> [] | k # ks \<Rightarrow> k)\<rparr>"
  by (induction bs) (auto simp: Let_def evidence_make_risk split: if_splits)

lemma strong_type:
  "lit ''incomplete_entrust_relationship'' \<noteq> lit ''entrusted_context_ambiguous''"
  by (simp add: lit_def)

lemma rule_relationship_cases:
  assumes "r \<in> set (rule_relationship rt scopes cfg regexes)"
  shows "(risk_type r = lit ''incomplete_entrust_relationship''
          \<and> get_intent_keywords cfg ''entrusted_party_strong_intent'' \<noteq> []
          \<and> evidence r =
              \<lparr>ev_block_id = or_str (snd (pick_first_keyword_evidence_in_blocks rt (blocks scopes)
                   (get_intent_keywords cfg ''entrusted_party_strong_intent'') cfg)) NA,
               raw_snippet = or_str (fst (pick_first_keyword_evidence_in_blocks rt (blocks scopes)
                   (get_intent_keywords cfg ''entrusted_party_strong_intent'') cfg))
                   (hd (get_intent_keywords cfg ''entrusted_party_strong_intent''))\<rparr>)
       \<or> (risk_type r = lit ''entrusted_context_ambiguous''
          \<and> (\<exists>b\<in>set (blocks scopes). evidence r =
                \<lparr>ev_block_id = block_id b,
                 raw_snippet = or_str (first_keyword_snippet rt (b_text_raw b)
                     (get_intent_keywords cfg ''entrusted_party_weak_intent'') cfg)
                   (case get_intent_keywords cfg ''entrusted_party_weak_intent'' of
                      [] \<Rightarrow> [] | k # ks \<Rightarrow> k)\<rparr>))"
proof -
  let ?strong = "get_intent_keywords cfg ''entrusted_party_strong_intent''"
  let ?norm = "normalize_for_match rt (global_text_raw scopes) cfg"
  show ?thesis
  proof (cases "intent_match_any rt ?norm ?strong cfg
                \<and> \<not> intent_match_any rt ?norm
                      (get_intent_keywords cfg ''principal_party_intent'') cfg")
    case True
    then have ne: "?strong \<noteq> []" by (cases ?strong) auto
    let ?found = "pick_first_keyword_evidence_in_blocks rt (blocks scopes) ?strong cfg"
    from True have "rule_relationship rt scopes cfg regexes =
        [make_risk (lit ''incomplete_entrust_relationship'') (or_str (snd ?found) NA)
           (case ?strong of [] \<Rightarrow> [21463, 22996, 25176, 29983, 20135]
            | k # ks \<Rightarrow> or_str (fst ?found) k)
           (lit ''Entrust-production context observed but principal party not observed'')
           (lit ''Strong entrust-production keywords were detected, but no principal-party keywords were detected in the extracted text'')]"
      by (simp add: rule_relationship_def Let_def)
    with assms have "r = make_risk (lit ''incomplete_entrust_relationship'')
           (or_str (snd ?found) NA)
           (case ?strong of [] \<Rightarrow> [21463, 22996, 25176, 29983, 20135]
            | k # ks \<Rightarrow> or_str (fst ?found) k)
           (lit ''Entrust-production context observed but principal party not observed'')
           (lit ''Strong entrust-production keywords were detected, but no principal-party keywords were detected in the extracted text'')"
      by simp
    then have "risk_type r = lit ''incomplete_entrust_relationship''"
      and "evidence r = \<lparr>ev_block_id = or_str (snd ?found) NA,
                         raw_snippet = (case ?strong of [] \<Rightarrow> [21463, 22996, 25176, 29983, 20135]
                                        | k # ks \<Rightarrow> or_str (fst ?found) k)\<rparr>"
      by (simp_all add: risk_type_make_risk evidence_make_risk)
    with ne show ?thesis
      by (cases ?strong) simp_all
  next
    case False
    with assms have "r \<in> set (weak_scan rt cfg
        (get_intent_keywords cfg ''entrusted_party_weak_intent'')
        (get_intent_keywords cfg ''producer_intent'')
        (threshold cfg ''producer_context_keyword_min_hits_for_weak_entrust'') (blocks scopes))"
      by (auto simp: rule_relationship_def Let_def split: if_splits)
    from weak_scan_type [OF this] weak_scan_evidence [OF this] show ?thesis by blast
  qed
qed

lemma rule_relationship_ok:
  assumes "r \<in> set (rule_relationship rt scopes cfg regexes)"
      and "ev_block_id (evidence r) \<noteq> NA"
      and "risk_type r = lit ''entrusted_context_ambiguous'' \<longrightarrow>
             weak_keyword_located rt cfg (blocks scopes) r"
  shows "evidence_in_block (blocks scopes) r"
proof -
  let ?kws = "get_intent_keywords cfg ''entrusted_party_strong_intent''"
  let ?found = "pick_first_keyword_evidence_in_blocks rt (blocks scopes) ?kws cfg"
  let ?weak = "get_intent_keywords cfg ''entrusted_party_weak_intent''"
  from rule_relationship_cases [OF assms(1)] show ?thesis
  proof (elim disjE conjE bexE)
    assume ne: "?kws \<noteq> []"
      and ev: "evidence r = \<lparr>ev_block_id = or_str (snd ?found) NA,
                              raw_snippet = or_str (fst ?found) (hd ?kws)\<rparr>"
    from pick_first_cases [of rt "blocks scopes" ?kws cfg] show ?thesis
    proof
      assume "?found = (None, None)"
      with ev assms(2) show ?thesis by (simp add: or_str_def)
    next
      assume "\<exists>sn b. ?found = (Some sn, Some (block_id b)) \<and> b \<in> set (blocks scopes)
                \<and> sn \<noteq> [] \<and> sublist sn (b_text_raw b)"
      then obtain sn b where f: "?found = (Some sn, Some (block_id b))"
        and b: "b \<in> set (blocks scopes)" "sn \<noteq> []" "sublist sn (b_text_raw b)" by blast
      from ev assms(2) f have "block_id b \<noteq> []"
        by (auto simp: or_str_def split: if_splits)
      with ev f b show ?thesis
        by (auto simp: evidence_in_block_def list_ex_iff or_str_def)
    qed
  next
    fix b
    assume t: "risk_type r = lit ''entrusted_context_ambiguous''"
      and b: "b \<in> set (blocks scopes)"
      and ev: "evidence r = \<lparr>ev_block_id = block_id b,
                 raw_snippet = or_str (first_keyword_snippet rt (b_text_raw b) ?weak cfg)
                   (case ?weak of [] \<Rightarrow> [] | k # ks \<Rightarrow> k)\<rparr>"
    from t assms(3) have "weak_keyword_located rt cfg (blocks scopes) r" by simp
    with b ev obtain sn where sn: "first_keyword_snippet rt (b_text_raw b) ?weak cfg = Some sn"
      by (auto simp: weak_keyword_located_def list_all_iff)
    from first_keyword_snippet_sound [OF sn] have "sn \<noteq> []" "sublist sn (b_text_raw b)"
      by simp_all
    with ev sn b show ?thesis
      by (auto simp: evidence_in_block_def list_ex_iff or_str_def)
  qed
qed


subsection \<open>Loading\<close>


lemma py_int_default: "py_int rt (JInt 1) = Inr 1"
  by simp

lemma page_value_falsy:
  "page_absent_or_falsy kvs \<Longrightarrow>
     py_or (case map_of kvs (lit ''source_page'') of None \<Rightarrow> JInt 1 | Some v \<Rightarrow> v) (JInt 1) = JInt 1"
  by (auto simp: page_absent_or_falsy_def py_or_def split: option.splits)


lemma load_block_obj:
  "load_block rt (JObj kvs) =
     (case py_int rt (py_or (case map_of kvs (lit ''source_page'') of None \<Rightarrow> JInt 1 | Some v \<Rightarrow> v)
                        (JInt 1)) of
        Inl e \<Rightarrow> Inl e
      | Inr n \<Rightarrow>
          Inr \<lparr>block_id = py_str rt (case map_of kvs (lit ''block_id'') of None \<Rightarrow> JStr [] | Some v \<Rightarrow> v),
               block_type = py_str rt (case map_of kvs (lit ''block_type'') of None \<Rightarrow> JStr [] | Some v \<Rightarrow> v),
               b_text_raw = py_str rt (case map_of kvs (lit ''text_raw'') of None \<Rightarrow> JStr [] | Some v \<Rightarrow> v),
               source_page = n\<rparr>)"
  by (simp add: load_block_def)

lemma load_line_obj:
  "load_line rt (JObj kvs) =
     (case py_int rt (py_or (case map_of kvs (lit ''source_page'') of None \<Rightarrow> JInt 1 | Some v \<Rightarrow> v)
                        (JInt 1)) of
        Inl e \<Rightarrow> Inl e
      | Inr n \<Rightarrow>
          Inr \<lparr>line_id = py_str rt (case map_of kvs (lit ''line_id'') of None \<Rightarrow> JStr [] | Some v \<Rightarrow> v),
               line_text = py_str rt (case map_of kvs (lit ''text'') of None \<Rightarrow> JStr [] | Some v \<Rightarrow> v),
               line_source_page = n\<rparr>)"
  by (simp add: load_line_def)

lemma load_block_falsy_page:
  "page_absent_or_falsy kvs \<Longrightarrow>
     \<exists>b. load_block rt (JObj kvs) = Inr b \<and> source_page b = 1"
  by (simp add: load_block_obj page_value_falsy)

lemma load_line_falsy_page:
  "page_absent_or_falsy kvs \<Longrightarrow>
     \<exists>l. load_line rt (JObj kvs) = Inr l \<and> line_source_page l = 1"
  by (simp add: load_line_obj page_value_falsy)






lemma load_all_nth:
  "load_all f xs = Inr ys \<Longrightarrow>
     length ys = length xs \<and> (\<forall>i<length xs. f (xs ! i) = Inr (ys ! i))"
proof (induction xs arbitrary: ys)
  case Nil
  then show ?case by simp
next
  case (Cons x xs)
  from Cons.prems obtain y ys' where y: "f x = Inr y" "load_all f xs = Inr ys'" "ys = y # ys'"
    by (auto split: sum.splits)
  from Cons.IH [OF y(2)] y show ?case
    by (auto simp: nth_Cons split: nat.splits)
qed

lemma py_iter_or_list: "py_iter (py_or (JArr xs) (JArr [])) = Inr xs"
  by (cases xs) (simp_all add: py_or_def)

lemma load_doc_lists:
  assumes "map_of doc (lit ''raw_text_lines'') = Some (JArr litems)"
      and "map_of doc (lit ''blocks'') = Some (JArr bitems)"
  shows "load_block_extractor_output rt (JObj doc) =
     (case load_all (load_line rt) litems of Inl e \<Rightarrow> Inl e | Inr raw_lines \<Rightarrow>
      case load_all (load_block rt) bitems of Inl e \<Rightarrow> Inl e | Inr bs \<Rightarrow> Inr (raw_lines, bs))"
  using assms by (simp add: load_block_extractor_output_def py_iter_or_list split: sum.splits)



subsection \<open>Page order\<close>

lemma keys_add_page_text:
  "map fst (add_page_text m b) =
     (if source_page b \<in> set (map fst m) then map fst m else map fst m @ [source_page b])"
proof (cases "map_of m (source_page b)")
  case None
  then have notin: "source_page b \<notin> set (map fst m)"
    by (simp add: map_of_eq_None_iff)
  have "map_of (AList.update (source_page b) [] m) (source_page b) = Some []"
    by (simp add: update_conv')
  with None notin show ?thesis
    by (simp add: add_page_text_def Let_def update_keys)
next
  case (Some v)
  then have isin: "source_page b \<in> set (map fst m)"
    by (metis map_of_eq_None_iff option.distinct(1) set_map)
  with Some show ?thesis
    by (simp add: add_page_text_def Let_def update_keys)
qed

lemma keys_foldl_add_page_text:
  "map fst (foldl add_page_text [] bs) = rev (remdups (rev (map source_page bs)))"
proof (induction bs rule: rev_induct)
  case Nil
  show ?case by simp
next
  case (snoc b bs)
  have "set (map fst (foldl add_page_text [] bs)) = set (map source_page bs)"
    unfolding snoc.IH by simp
  with snoc.IH show ?case
    by (simp add: keys_add_page_text)
qed

lemma page_keys:
  "map fst (page_text_raw (build_scopes ls bs)) = rev (remdups (rev (map source_page bs)))"
  by (simp add: build_scopes_def keys_foldl_add_page_text)

lemma sorted_wrt_remdups: "sorted_wrt P ys \<Longrightarrow> sorted_wrt P (remdups ys)"
  by (induction ys) auto

lemma sorted_first_appearance:
  fixes xs :: "int list"
  assumes "sorted xs"
  shows "sorted (rev (remdups (rev xs)))"
proof -
  from assms have "sorted_wrt (\<lambda>x y. y \<le> x) (rev xs)"
    by (simp add: sorted_wrt_rev)
  then have "sorted_wrt (\<lambda>x y. y \<le> x) (remdups (rev xs))"
    by (rule sorted_wrt_remdups)
  then show ?thesis
    by (simp add: sorted_wrt_rev)
qed


subsection \<open>Independence of the lines\<close>

lemma blocks_build_scopes: "blocks (build_scopes ls bs) = bs"
  by (simp add: build_scopes_def)

lemma global_text_build_scopes:
  "global_text_raw (build_scopes l1 bs) = global_text_raw (build_scopes l2 bs)"
  by (simp add: build_scopes_def)

lemma page_text_build_scopes:
  "page_text_raw (build_scopes l1 bs) = page_text_raw (build_scopes l2 bs)"
  by (simp add: build_scopes_def)

lemma blocks_by_type_build_scopes:
  "blocks_by_type (build_scopes l1 bs) = blocks_by_type (build_scopes l2 bs)"
  by (simp add: build_scopes_def)

lemma blocks_build_scopes_lines:
  "blocks (build_scopes l1 bs) = blocks (build_scopes l2 bs)"
  by (simp add: build_scopes_def)

lemma rule_missing_ignores_lines:
  "rule_missing rt (build_scopes l1 bs) cfg rx = rule_missing rt (build_scopes l2 bs) cfg rx"
  unfolding rule_missing_def has_intent_def has_regex_def has_block_type_def title_ok_def
    global_text_build_scopes [of l1 bs l2] blocks_by_type_build_scopes [of l1 bs l2]
  by (rule refl)

lemma rule_format_ignores_lines:
  "rule_format rt (build_scopes l1 bs) cfg rx = rule_format rt (build_scopes l2 bs) cfg rx"
  unfolding rule_format_def
    page_text_build_scopes [of l1 bs l2] blocks_build_scopes_lines [of l1 bs l2]
  by (rule refl)

lemma rule_relationship_ignores_lines:
  "rule_relationship rt (build_scopes l1 bs) cfg rx
     = rule_relationship rt (build_scopes l2 bs) cfg rx"
  unfolding rule_relationship_def
    global_text_build_scopes [of l1 bs l2] blocks_build_scopes_lines [of l1 bs l2]
  by (rule refl)

lemma run_engine_loaded:
  "load_block_extractor_output rt doc = Inr (ls, bs) \<Longrightarrow>
     run_engine rt doc cfg =
       (case rule_missing rt (build_scopes ls bs) cfg (compile_regexes cfg) of
          Inl e \<Rightarrow> Inl e
        | Inr missing \<Rightarrow>
           (case rule_format rt (build_scopes ls bs) cfg (compile_regexes cfg) of
              Inl e \<Rightarrow> Inl e
            | Inr format \<Rightarrow>
                Inr \<lparr>system_version = lit ''v1.0.0-alpha'',
                     result_module_name = lit ''DeterministicRuleEngine'',
                     module_version = lit ''v1.0.0-alpha'',
                     spec_version = lit ''v1.0.0-alpha'',
                     result_dict_version =
                       (case dict_version cfg of None \<Rightarrow> lit ''v1.0.0-alpha'' | Some v \<Rightarrow> v),
                     schema_version = lit ''draft-2020-12'',
                     result_detection_method = DETECTION_METHOD,
                     risk_list = deduplicate
                       (missing @ format
                        @ rule_relationship rt (build_scopes ls bs) cfg (compile_regexes cfg))\<rparr>))"
  unfolding run_engine_def Let_def by (simp only: sum.case fst_conv snd_conv)

lemma run_engine_Inr:
  assumes "load_block_extractor_output rt doc = Inr (ls, bs)"
  shows "run_engine rt doc cfg = Inr res \<longleftrightarrow>
     (\<exists>missing format.
        rule_missing rt (build_scopes ls bs) cfg (compile_regexes cfg) = Inr missing
        \<and> rule_format rt (build_scopes ls bs) cfg (compile_regexes cfg) = Inr format
        \<and> res = \<lparr>system_version = lit ''v1.0.0-alpha'',
                     result_module_name = lit ''DeterministicRuleEngine'',
                     module_version = lit ''v1.0.0-alpha'',
                     spec_version = lit ''v1.0.0-alpha'',
                     result_dict_version =
                       (case dict_version cfg of None \<Rightarrow> lit ''v1.0.0-alpha'' | Some v \<Rightarrow> v),
                     schema_version = lit ''draft-2020-12'',
                     result_detection_method = DETECTION_METHOD,
                     risk_list = deduplicate
                       (missing @ format
                        @ rule_relationship rt (build_scopes ls bs) cfg (compile_regexes cfg))\<rparr>)"
  unfolding run_engine_loaded [OF assms] by (auto split: sum.splits)

lemma engine_risks_loaded:
  assumes "load_block_extractor_output rt doc = Inr (ls, bs)"
      and "r \<in> set (engine_risks rt doc cfg)"
  shows "\<exists>missing format.
        rule_missing rt (build_scopes ls bs) cfg (compile_regexes cfg) = Inr missing
        \<and> rule_format rt (build_scopes ls bs) cfg (compile_regexes cfg) = Inr format
        \<and> r \<in> set (deduplicate
               (missing @ format
                @ rule_relationship rt (build_scopes ls bs) cfg (compile_regexes cfg)))"
proof (cases "run_engine rt doc cfg")
  case (Inl e)
  with assms(2) show ?thesis by (simp add: engine_risks_def)
next
  case (Inr res)
  with assms(2) have r: "r \<in> set (risk_list res)" by (simp add: engine_risks_def)
  from Inr obtain missing format where
    "rule_missing rt (build_scopes ls bs) cfg (compile_regexes cfg) = Inr missing"
    "rule_format rt (build_scopes ls bs) cfg (compile_regexes cfg) = Inr format"
    "risk_list res = deduplicate
       (missing @ format @ rule_relationship rt (build_scopes ls bs) cfg (compile_regexes cfg))"
    unfolding run_engine_Inr [OF assms(1)] by auto
  with r show ?thesis by auto
qed

lemma run_engine_same_blocks:
  assumes "load_block_extractor_output rt d1 = Inr (l1, bs)"
      and "load_block_extractor_output rt d2 = Inr (l2, bs)"
  shows "run_engine rt d1 cfg = run_engine rt d2 cfg"
  unfolding run_engine_loaded [OF assms(1)] run_engine_loaded [OF assms(2)]
    rule_missing_ignores_lines [of rt l1 bs cfg "compile_regexes cfg" l2]
    rule_format_ignores_lines [of rt l1 bs cfg "compile_regexes cfg" l2]
    rule_relationship_ignores_lines [of rt l1 bs cfg "compile_regexes cfg" l2]
  by (rule refl)


subsection \<open>The loader on the items of a document\<close>

lemma load_Inr_iff:
  "load_block_extractor_output rt doc = Inr (ls, bs) \<longleftrightarrow>
     entry_iterable doc (lit ''raw_text_lines'') \<and> entry_iterable doc (lit ''blocks'')
     \<and> load_all (load_line rt) (items_of doc (lit ''raw_text_lines'')) = Inr ls
     \<and> load_all (load_block rt) (items_of doc (lit ''blocks'')) = Inr bs"
  by (auto simp: load_block_extractor_output_def entry_iterable_def items_of_def
      split: sum.splits)

lemma load_block_page_one:
  assumes "load_block rt (JObj kvs) = Inr b" and "page_absent_or_falsy kvs"
  shows "source_page b = 1"
  using load_block_falsy_page [OF assms(2), of rt] assms(1) by auto

lemma load_line_page_one:
  assumes "load_line rt (JObj kvs) = Inr l" and "page_absent_or_falsy kvs"
  shows "line_source_page l = 1"
  using load_line_falsy_page [OF assms(2), of rt] assms(1) by auto





subsection \<open>Keys of duplicates\<close>










subsection \<open>Evaluation of concrete runs\<close>

lemmas engine_eval =
  engine_risks_def run_engine_def load_block_extractor_output_def load_block_def load_line_def
  py_or_def build_scopes_def add_page_text_def add_block_type_def compile_regexes_def
  compile_regex_entry_def get_intent_keywords_def normalize_for_match_def to_halfwidth_def
  FULLWIDTH_MAP_def normalize_for_dedup_key_def regex_find_any_def
  pick_evidence_snippet_for_keyword_def pick_evidence_snippet_for_regex_def str_find_def
  search_ic_def slice_def str_lower_def is_ascii_def ascii_lower_def py_strip_def is_space_def
  make_risk_def or_str_def NA_def DETECTION_METHOD_def has_block_type_def has_intent_def
  has_regex_def title_ok_def rule_missing_def rx_matches_def unit_case_page_def
  net_content_page_def standard_code_page_def license_code_page_def unit_case_risk_def or_else_def
  rule_format_def threshold_def weak_count_def str_count_def rule_relationship_def
  dedup_key_def dedup_step_def deduplicate_def finding_summary_def
  rt_ascii_def cfg_empty_def block_obj_def mk_block_def lit_def Let_def
  sublist_Cons_right AList.update.simps evidence_violated_def evidence_in_block_def


section \<open>Evidence integrity\<close>

text \<open>
  C1, as amended. The claim says that every finding whose snippet is not \<open>"N/A"\<close> carries
  a snippet that is a contiguous substring of the \<open>text_raw\<close> of the block named by its
  \<open>block_id\<close>. The code guarantees this for the findings that name a block: whenever a
  document loads, every finding of the final risk list whose \<open>block_id\<close> is not \<open>"N/A"\<close>
  has a snippet that is a contiguous substring of the original \<open>text_raw\<close> of a loaded
  block with that \<open>block_id\<close>, provided that, for a finding of type
  \<open>entrusted_context_ambiguous\<close>, a weak entrustment keyword can be located in the
  original text of the block it names.
\<close>

theorem evidence_integrity:
  assumes "load_block_extractor_output rt doc = Inr (ls, bs)"
      and "r \<in> set (engine_risks rt doc cfg)"
      and "ev_block_id (evidence r) \<noteq> NA"
      and "risk_type r = lit ''entrusted_context_ambiguous'' \<longrightarrow>
             weak_keyword_located rt cfg bs r"
  shows "\<exists>b\<in>set bs. block_id b = ev_block_id (evidence r)
                     \<and> sublist (raw_snippet (evidence r)) (b_text_raw b)"
proof -
  let ?sc = "build_scopes ls bs" and ?rx = "compile_regexes cfg"
  from engine_risks_loaded [OF assms(1,2)] obtain missing format where
    m: "rule_missing rt ?sc cfg ?rx = Inr missing"
    and f: "rule_format rt ?sc cfg ?rx = Inr format"
    and r: "r \<in> set (deduplicate (missing @ format @ rule_relationship rt ?sc cfg ?rx))"
    by blast
  from r have "r \<in> set (missing @ format @ rule_relationship rt ?sc cfg ?rx)"
    by (rule subsetD [OF set_deduplicate])
  then consider "r \<in> set missing" | "r \<in> set format"
    | "r \<in> set (rule_relationship rt ?sc cfg ?rx)" by auto
  then have "evidence_in_block bs r"
  proof cases
    case 1
    from rule_missing_NA [OF m 1] assms(3) show ?thesis by simp
  next
    case 2
    from rule_format_ok [OF f 2 assms(3)] show ?thesis by (simp add: blocks_build_scopes)
  next
    case 3
    from assms(4) have "risk_type r = lit ''entrusted_context_ambiguous'' \<longrightarrow>
             weak_keyword_located rt cfg (blocks ?sc) r"
      by (simp add: blocks_build_scopes)
    from rule_relationship_ok [OF 3 assms(3) this] show ?thesis
      by (simp add: blocks_build_scopes)
  qed
  then show ?thesis by (simp add: evidence_in_block_def list_ex_iff)
qed

text \<open>
  The theorem at two labels, both with lower-casing switched on. A block that reads
  \<open>Net weight: see bottom\<close>, with the net-content keyword \<open>net weight\<close>: the format
  finding names block \<open>b1\<close> and its snippet \<open>Net weight\<close> is cut from the text of that
  block. A producer block that reads \<open>Made for ACME factory\<close>, with the weak keyword
  \<open>made for\<close>: the keyword is located in the block, and the snippet \<open>Made for\<close> of the
  ambiguous finding is cut from it.
\<close>

theorem evidence_integrity_witness:
  "load_block_extractor_output rt_ascii doc_label = Inr ([], blocks_label)
   \<and> risk_label \<in> set (engine_risks rt_ascii doc_label cfg_label)
   \<and> ev_block_id (evidence risk_label) \<noteq> NA
   \<and> risk_type risk_label \<noteq> lit ''entrusted_context_ambiguous''
   \<and> list_ex (\<lambda>b. block_id b = lit ''b1'' \<and> sublist (lit ''Net weight'') (b_text_raw b))
        blocks_label
   \<and> load_block_extractor_output rt_ascii doc_made_for = Inr ([], blocks_made_for)
   \<and> risk_made_for \<in> set (engine_risks rt_ascii doc_made_for cfg_made_for)
   \<and> ev_block_id (evidence risk_made_for) \<noteq> NA
   \<and> risk_type risk_made_for = lit ''entrusted_context_ambiguous''
   \<and> weak_keyword_located rt_ascii cfg_made_for blocks_made_for risk_made_for
   \<and> list_ex (\<lambda>b. block_id b = lit ''b1'' \<and> sublist (lit ''Made for'') (b_text_raw b))
        blocks_made_for"
proof -
  have 1: "load_block_extractor_output rt_ascii doc_label = Inr ([], blocks_label)"
    by (simp add: engine_eval doc_label_def blocks_label_def)
  have 2: "risk_label \<in> set (engine_risks rt_ascii doc_label cfg_label)"
    by (simp add: engine_eval doc_label_def cfg_label_def risk_label_def)
  have 3: "ev_block_id (evidence risk_label) \<noteq> NA"
    by (simp add: risk_label_def make_risk_def NA_def lit_def)
  have 4: "risk_type risk_label \<noteq> lit ''entrusted_context_ambiguous''"
    by (simp add: risk_label_def make_risk_def lit_def)
  have 5: "ev_block_id (evidence risk_label) = lit ''b1''"
          "raw_snippet (evidence risk_label) = lit ''Net weight''"
    by (simp_all add: risk_label_def make_risk_def)
  from 4 have v4: "risk_type risk_label = lit ''entrusted_context_ambiguous'' \<longrightarrow>
      weak_keyword_located rt_ascii cfg_label blocks_label risk_label" by simp
  from evidence_integrity [OF 1 2 3 v4] 5
  have a: "list_ex (\<lambda>b. block_id b = lit ''b1'' \<and> sublist (lit ''Net weight'') (b_text_raw b))
          blocks_label"
    by (simp add: list_ex_iff)
  have 6: "load_block_extractor_output rt_ascii doc_made_for = Inr ([], blocks_made_for)"
    by (simp add: engine_eval doc_made_for_def blocks_made_for_def)
  have 7: "risk_made_for \<in> set (engine_risks rt_ascii doc_made_for cfg_made_for)"
    by (simp add: engine_eval doc_made_for_def cfg_made_for_def risk_made_for_def)
  have 8: "ev_block_id (evidence risk_made_for) \<noteq> NA"
    by (simp add: risk_made_for_def make_risk_def NA_def lit_def)
  have 9: "risk_type risk_made_for = lit ''entrusted_context_ambiguous''"
    by (simp add: risk_made_for_def make_risk_def)
  have 10: "weak_keyword_located rt_ascii cfg_made_for blocks_made_for risk_made_for"
    by (simp add: weak_keyword_located_def engine_eval blocks_made_for_def cfg_made_for_def
        risk_made_for_def)
  have 11: "ev_block_id (evidence risk_made_for) = lit ''b1''"
           "raw_snippet (evidence risk_made_for) = lit ''Made for''"
    by (simp_all add: risk_made_for_def make_risk_def)
  from 10 have v10: "risk_type risk_made_for = lit ''entrusted_context_ambiguous'' \<longrightarrow>
      weak_keyword_located rt_ascii cfg_made_for blocks_made_for risk_made_for" by simp
  from evidence_integrity [OF 6 7 8 v10] 11
  have b: "list_ex (\<lambda>b. block_id b = lit ''b1'' \<and> sublist (lit ''Made for'') (b_text_raw b))
          blocks_made_for"
    by (simp add: list_ex_iff)
  from 1 2 3 4 a 6 7 8 9 10 b show ?thesis by simp
qed

text \<open>
  The claim as stated fails in two ways. On the split label the net-content rule finds
  its keyword only in the normalized page text, falls back to the token of the source
  (the three code points of the Chinese word for net content) and names the block
  \<open>"N/A"\<close>: the snippet occurs in no block. On the producer block with two spaces the
  weak keyword \<open>made for\<close> matches the normalized text only and cannot be located in the
  original text; the weak relationship rule then takes the keyword itself as snippet and
  names block \<open>b1\<close>, whose text does not contain it.
\<close>

theorem evidence_integrity_counterexample:
  "load_block_extractor_output rt_ascii doc_split = Inr ([], blocks_split)
   \<and> list_ex (evidence_violated blocks_split) (engine_risks rt_ascii doc_split cfg_split)
   \<and> finding_summary (last (engine_risks rt_ascii doc_split cfg_split))
       = (lit ''format_net_content_pattern_unusual'', NA, [20928, 21547, 37327])
   \<and> load_block_extractor_output rt_ascii doc_weak = Inr ([], blocks_weak)
   \<and> list_ex (evidence_violated blocks_weak) (engine_risks rt_ascii doc_weak cfg_weak)
   \<and> finding_summary (last (engine_risks rt_ascii doc_weak cfg_weak))
       = (lit ''entrusted_context_ambiguous'', lit ''b1'', lit ''made for'')
   \<and> \<not> weak_keyword_located rt_ascii cfg_weak blocks_weak
         (last (engine_risks rt_ascii doc_weak cfg_weak))"
  by (simp add: engine_eval doc_split_def cfg_split_def blocks_split_def doc_weak_def
      cfg_weak_def blocks_weak_def weak_keyword_located_def)

section \<open>Deduplication\<close>



section \<open>Strong entrustment\<close>

text \<open>
  C3. When some strong-entrustment keyword matches the normalized text of the whole
  document and no principal-party keyword does, the relationship rules return exactly
  one finding, of type \<open>incomplete_entrust_relationship\<close>, and no finding of type
  \<open>entrusted_context_ambiguous\<close>.
\<close>

theorem strong_entrust_short_circuit:
  assumes "intent_match_any rt (normalize_for_match rt (global_text_raw scopes) cfg)
             (get_intent_keywords cfg ''entrusted_party_strong_intent'') cfg"
      and "\<not> intent_match_any rt (normalize_for_match rt (global_text_raw scopes) cfg)
               (get_intent_keywords cfg ''principal_party_intent'') cfg"
  shows "map risk_type (rule_relationship rt scopes cfg regexes)
           = [lit ''incomplete_entrust_relationship'']
       \<and> length (filter (\<lambda>r. risk_type r = lit ''incomplete_entrust_relationship'')
                   (rule_relationship rt scopes cfg regexes)) = 1
       \<and> filter (\<lambda>r. risk_type r = lit ''entrusted_context_ambiguous'')
           (rule_relationship rt scopes cfg regexes) = []"
proof -
  have ne: "lit ''incomplete_entrust_relationship'' \<noteq> lit ''entrusted_context_ambiguous''"
    by (simp add: lit_def)
  from assms obtain r where r: "rule_relationship rt scopes cfg regexes = [r]"
    and t: "risk_type r = lit ''incomplete_entrust_relationship''"
    by (simp add: rule_relationship_def Let_def risk_type_make_risk)
  from r t ne show ?thesis by simp
qed

text \<open>
  A producer block that reads \<open>Entrusted by ACME\<close>, with the strong keyword
  \<open>entrusted by\<close> and the principal keyword \<open>principal\<close>.
\<close>

theorem strong_entrust_short_circuit_witness:
  "intent_match_any rt_ascii
     (normalize_for_match rt_ascii (global_text_raw (build_scopes [] blocks_strong)) cfg_strong)
     (get_intent_keywords cfg_strong ''entrusted_party_strong_intent'') cfg_strong
   \<and> \<not> intent_match_any rt_ascii
     (normalize_for_match rt_ascii (global_text_raw (build_scopes [] blocks_strong)) cfg_strong)
     (get_intent_keywords cfg_strong ''principal_party_intent'') cfg_strong
   \<and> map risk_type (rule_relationship rt_ascii (build_scopes [] blocks_strong) cfg_strong
        Map.empty) = [lit ''incomplete_entrust_relationship'']
   \<and> map finding_summary (rule_relationship rt_ascii (build_scopes [] blocks_strong) cfg_strong
        Map.empty)
       = [(lit ''incomplete_entrust_relationship'', lit ''b1'', lit ''Entrusted by'')]"
proof -
  have s: "intent_match_any rt_ascii
     (normalize_for_match rt_ascii (global_text_raw (build_scopes [] blocks_strong)) cfg_strong)
     (get_intent_keywords cfg_strong ''entrusted_party_strong_intent'') cfg_strong"
    by (simp add: engine_eval blocks_strong_def cfg_strong_def)
  have p: "\<not> intent_match_any rt_ascii
     (normalize_for_match rt_ascii (global_text_raw (build_scopes [] blocks_strong)) cfg_strong)
     (get_intent_keywords cfg_strong ''principal_party_intent'') cfg_strong"
    by (simp add: engine_eval blocks_strong_def cfg_strong_def)
  have f: "map finding_summary (rule_relationship rt_ascii (build_scopes [] blocks_strong)
             cfg_strong Map.empty)
       = [(lit ''incomplete_entrust_relationship'', lit ''b1'', lit ''Entrusted by'')]"
    by (simp add: engine_eval blocks_strong_def cfg_strong_def)
  from strong_entrust_short_circuit [OF s p, of Map.empty] s p f show ?thesis by simp
qed

section \<open>Missing-field completeness\<close>




section \<open>Malformed fields in the loader\<close>




section \<open>Page order\<close>

text \<open>
  C6, as amended. The claim says that the per-page mapping is ordered by page number and
  that format findings of different pages follow ascending page number. The scope
  builder keeps the pages in the order of their first appearance among the blocks
  (\<open>rev (remdups (rev xs))\<close> keeps the first occurrence of every element of \<open>xs\<close>); that
  order is ascending whenever the blocks arrive in ascending page order. The format
  rules run as four loops over the pages in that order, one rule after the other: they
  return exactly when every body returns on every page, and the findings are then those
  of the unit-case rule for all pages, followed by those of the net-content rule for all
  pages, the standard-code rule and the license-code rule, within each rule in the order
  of the pages of the mapping.
\<close>

theorem page_order_is_first_appearance:
  "map fst (page_text_raw (build_scopes ls bs)) = rev (remdups (rev (map source_page bs)))
   \<and> (sorted (map source_page bs) \<longrightarrow> sorted (map fst (page_text_raw (build_scopes ls bs))))
   \<and> (rule_format rt (build_scopes ls bs) cfg regexes = Inr risks \<longleftrightarrow>
        (\<exists>us ns ss cs.
           outcomes (unit_case_page bs regexes) (page_text_raw (build_scopes ls bs)) = Inr us
           \<and> outcomes (net_content_page rt bs cfg regexes)
                (page_text_raw (build_scopes ls bs)) = Inr ns
           \<and> outcomes (standard_code_page rt bs cfg regexes)
                (page_text_raw (build_scopes ls bs)) = Inr ss
           \<and> outcomes (license_code_page rt bs cfg regexes)
                (page_text_raw (build_scopes ls bs)) = Inr cs
           \<and> risks = concat us @ concat ns @ concat ss @ concat cs))"
proof (intro conjI impI)
  show "map fst (page_text_raw (build_scopes ls bs)) = rev (remdups (rev (map source_page bs)))"
    by (rule page_keys)
next
  assume "sorted (map source_page bs)"
  then show "sorted (map fst (page_text_raw (build_scopes ls bs)))"
    unfolding page_keys by (rule sorted_first_appearance)
next
  show "rule_format rt (build_scopes ls bs) cfg regexes = Inr risks \<longleftrightarrow>
        (\<exists>us ns ss cs.
           outcomes (unit_case_page bs regexes) (page_text_raw (build_scopes ls bs)) = Inr us
           \<and> outcomes (net_content_page rt bs cfg regexes)
                (page_text_raw (build_scopes ls bs)) = Inr ns
           \<and> outcomes (standard_code_page rt bs cfg regexes)
                (page_text_raw (build_scopes ls bs)) = Inr ss
           \<and> outcomes (license_code_page rt bs cfg regexes)
                (page_text_raw (build_scopes ls bs)) = Inr cs
           \<and> risks = concat us @ concat ns @ concat ss @ concat cs)"
    using rule_format_Inr [of rt "build_scopes ls bs" cfg regexes risks]
    by (simp only: blocks_build_scopes)
qed

text \<open>
  Blocks that arrive on pages 1 and 2, in this order, give the pages 1 and 2, and the
  format rules return the net-content finding of page 2 followed by the standard-code
  finding of page 1.
\<close>

theorem page_order_is_first_appearance_witness:
  "sorted (map source_page blocks_rules)
   \<and> map fst (page_text_raw (build_scopes [] blocks_rules)) = [1, 2]
   \<and> sorted (map fst (page_text_raw (build_scopes [] blocks_rules)))
   \<and> (case rule_format rt_ascii (build_scopes [] blocks_rules) cfg_rules Map.empty of
         Inl e \<Rightarrow> False
       | Inr risks \<Rightarrow>
           map finding_summary risks
             = [(lit ''format_net_content_pattern_unusual'', lit ''b2'', lit ''net B''),
                (lit ''format_standard_code_pattern_unusual'', lit ''b1'', lit ''standard'')])"
proof -
  have s: "sorted (map source_page blocks_rules)"
    by (simp add: blocks_rules_def mk_block_def)
  have k: "rev (remdups (rev (map source_page blocks_rules))) = [1, 2]"
    by (simp add: blocks_rules_def mk_block_def)
  have f: "(case rule_format rt_ascii (build_scopes [] blocks_rules) cfg_rules Map.empty of
         Inl e \<Rightarrow> False
       | Inr risks \<Rightarrow>
           map finding_summary risks
             = [(lit ''format_net_content_pattern_unusual'', lit ''b2'', lit ''net B''),
                (lit ''format_standard_code_pattern_unusual'', lit ''b1'', lit ''standard'')])"
    by (simp add: engine_eval blocks_rules_def cfg_rules_def)
  from page_order_is_first_appearance [of "[]" blocks_rules rt_ascii cfg_rules Map.empty] s k f
  show ?thesis by simp
qed

text \<open>
  The claim as stated fails in two ways. When the block of page 2 precedes the block of
  page 1, the mapping has the pages in the order 2, 1 and the finding of page 2 (block
  \<open>b1\<close>) precedes the finding of page 1 (block \<open>b2\<close>). When the blocks arrive in the
  order of their pages 1 and 2, the net-content finding of page 2 (block \<open>b2\<close>) still
  precedes the standard-code finding of page 1 (block \<open>b1\<close>).
\<close>

theorem page_order_counterexample:
  "load_block_extractor_output rt_ascii doc_pages = Inr ([], blocks_pages)
   \<and> map source_page blocks_pages = [2, 1]
   \<and> map fst (page_text_raw (build_scopes [] blocks_pages)) = [2, 1]
   \<and> drop 6 (map finding_summary (engine_risks rt_ascii doc_pages cfg_pages))
       = [(lit ''format_net_content_pattern_unusual'', lit ''b1'', lit ''net B''),
          (lit ''format_net_content_pattern_unusual'', lit ''b2'', lit ''net A'')]
   \<and> load_block_extractor_output rt_ascii doc_rules = Inr ([], blocks_rules)
   \<and> map source_page blocks_rules = [1, 2]
   \<and> drop 5 (map finding_summary (engine_risks rt_ascii doc_rules cfg_rules))
       = [(lit ''format_net_content_pattern_unusual'', lit ''b2'', lit ''net B''),
          (lit ''format_standard_code_pattern_unusual'', lit ''b1'', lit ''standard'')]"
  by (simp add: engine_eval doc_pages_def blocks_pages_def cfg_pages_def doc_rules_def
      blocks_rules_def cfg_rules_def)

section \<open>Title threshold\<close>



section \<open>Absent and falsy page numbers\<close>

text \<open>
  C9. Whenever a document loads, the loaded blocks and lines correspond one to one to
  the items of the document, and every block or line item whose \<open>source_page\<close> is absent
  or falsy (\<open>None\<close>, \<open>0\<close>, \<open>False\<close>, an empty string, list or dictionary) is loaded with
  \<open>source_page\<close> 1; such a page never makes the loader raise.
\<close>

theorem falsy_page_loaded_as_one:
  "(page_absent_or_falsy kvs \<longrightarrow>
      (\<exists>b. load_block rt (JObj kvs) = Inr b \<and> source_page b = 1)
      \<and> (\<exists>l. load_line rt (JObj kvs) = Inr l \<and> line_source_page l = 1))
   \<and> (load_block_extractor_output rt doc = Inr (ls, bs) \<longrightarrow>
        length bs = length (items_of doc (lit ''blocks''))
        \<and> length ls = length (items_of doc (lit ''raw_text_lines''))
        \<and> (\<forall>i<length bs. \<forall>kvs. items_of doc (lit ''blocks'') ! i = JObj kvs
               \<and> page_absent_or_falsy kvs \<longrightarrow> source_page (bs ! i) = 1)
        \<and> (\<forall>i<length ls. \<forall>kvs. items_of doc (lit ''raw_text_lines'') ! i = JObj kvs
               \<and> page_absent_or_falsy kvs \<longrightarrow> line_source_page (ls ! i) = 1))"
proof (intro conjI impI)
  assume "page_absent_or_falsy kvs"
  then show "\<exists>b. load_block rt (JObj kvs) = Inr b \<and> source_page b = 1"
    by (rule load_block_falsy_page)
next
  assume "page_absent_or_falsy kvs"
  then show "\<exists>l. load_line rt (JObj kvs) = Inr l \<and> line_source_page l = 1"
    by (rule load_line_falsy_page)
next
  assume "load_block_extractor_output rt doc = Inr (ls, bs)"
  then have "load_all (load_block rt) (items_of doc (lit ''blocks'')) = Inr bs"
    by (simp add: load_Inr_iff)
  from load_all_nth [OF this]
  show "length bs = length (items_of doc (lit ''blocks''))" by simp
next
  assume "load_block_extractor_output rt doc = Inr (ls, bs)"
  then have "load_all (load_line rt) (items_of doc (lit ''raw_text_lines'')) = Inr ls"
    by (simp add: load_Inr_iff)
  from load_all_nth [OF this]
  show "length ls = length (items_of doc (lit ''raw_text_lines''))" by simp
next
  assume "load_block_extractor_output rt doc = Inr (ls, bs)"
  then have "load_all (load_block rt) (items_of doc (lit ''blocks'')) = Inr bs"
    by (simp add: load_Inr_iff)
  from load_all_nth [OF this]
  have len: "length bs = length (items_of doc (lit ''blocks''))"
    and nth: "\<And>i. i < length bs \<Longrightarrow>
                load_block rt (items_of doc (lit ''blocks'') ! i) = Inr (bs ! i)"
    by simp_all
  show "\<forall>i<length bs. \<forall>kvs. items_of doc (lit ''blocks'') ! i = JObj kvs
               \<and> page_absent_or_falsy kvs \<longrightarrow> source_page (bs ! i) = 1"
  proof (intro allI impI, elim conjE)
    fix i kvs
    assume "i < length bs" "items_of doc (lit ''blocks'') ! i = JObj kvs"
      "page_absent_or_falsy kvs"
    with nth [of i] show "source_page (bs ! i) = 1"
      by (auto intro: load_block_page_one)
  qed
next
  assume "load_block_extractor_output rt doc = Inr (ls, bs)"
  then have "load_all (load_line rt) (items_of doc (lit ''raw_text_lines'')) = Inr ls"
    by (simp add: load_Inr_iff)
  from load_all_nth [OF this]
  have len: "length ls = length (items_of doc (lit ''raw_text_lines''))"
    and nth: "\<And>i. i < length ls \<Longrightarrow>
                load_line rt (items_of doc (lit ''raw_text_lines'') ! i) = Inr (ls ! i)"
    by simp_all
  show "\<forall>i<length ls. \<forall>kvs. items_of doc (lit ''raw_text_lines'') ! i = JObj kvs
               \<and> page_absent_or_falsy kvs \<longrightarrow> line_source_page (ls ! i) = 1"
  proof (intro allI impI, elim conjE)
    fix i kvs
    assume "i < length ls" "items_of doc (lit ''raw_text_lines'') ! i = JObj kvs"
      "page_absent_or_falsy kvs"
    with nth [of i] show "line_source_page (ls ! i) = 1"
      by (auto intro: load_line_page_one)
  qed
qed

text \<open>A block and a line with the explicit page \<open>0\<close> are loaded on page 1.\<close>

theorem falsy_page_loaded_as_one_witness:
  "page_absent_or_falsy kvs_page_zero
   \<and> map_of kvs_page_zero (lit ''source_page'') = Some (JInt 0)
   \<and> load_block_extractor_output rt_ascii doc_page_zero
       = Inr ([\<lparr>line_id = lit ''l1'', line_text = [], line_source_page = 1\<rparr>],
              [\<lparr>block_id = lit ''b1'', block_type = [], b_text_raw = [], source_page = 1\<rparr>])
   \<and> items_of doc_page_zero (lit ''blocks'') ! 0 = JObj kvs_page_zero
   \<and> items_of doc_page_zero (lit ''raw_text_lines'') ! 0 = JObj kvs_page_zero
   \<and> source_page ([\<lparr>block_id = lit ''b1'', block_type = [], b_text_raw = [],
                     source_page = 1\<rparr>] ! 0) = 1
   \<and> line_source_page ([\<lparr>line_id = lit ''l1'', line_text = [],
                          line_source_page = 1\<rparr>] ! 0) = 1"
proof -
  have f: "page_absent_or_falsy kvs_page_zero"
    and z: "map_of kvs_page_zero (lit ''source_page'') = Some (JInt 0)"
    by (simp_all add: page_absent_or_falsy_def kvs_page_zero_def lit_def)
  have l: "load_block_extractor_output rt_ascii doc_page_zero
       = Inr ([\<lparr>line_id = lit ''l1'', line_text = [], line_source_page = 1\<rparr>],
              [\<lparr>block_id = lit ''b1'', block_type = [], b_text_raw = [], source_page = 1\<rparr>])"
    by (simp add: engine_eval doc_page_zero_def kvs_page_zero_def)
  have i: "items_of doc_page_zero (lit ''blocks'') ! 0 = JObj kvs_page_zero"
          "items_of doc_page_zero (lit ''raw_text_lines'') ! 0 = JObj kvs_page_zero"
    by (simp_all add: items_of_def doc_page_zero_def py_or_def lit_def)
  from falsy_page_loaded_as_one [of kvs_page_zero rt_ascii doc_page_zero
      "[\<lparr>line_id = lit ''l1'', line_text = [], line_source_page = 1\<rparr>]"
      "[\<lparr>block_id = lit ''b1'', block_type = [], b_text_raw = [], source_page = 1\<rparr>]"] f l i
  show ?thesis using z by simp
qed

section \<open>The lines of the document and the findings\<close>

text \<open>
  C10, as amended. The claim says that two documents with the same blocks always give
  the same risk list, whatever their \<open>raw_text_lines\<close>. The loader converts the lines as
  well, so a line can make the run raise; apart from that the lines are never consulted:
  whenever two documents have the same block items and both load, the engine returns
  the same result, and so the same risk list, for every configuration.
\<close>

theorem lines_do_not_influence_findings:
  assumes "items_of d1 (lit ''blocks'') = items_of d2 (lit ''blocks'')"
      and "load_block_extractor_output rt d1 = Inr lb1"
      and "load_block_extractor_output rt d2 = Inr lb2"
  shows "run_engine rt d1 cfg = run_engine rt d2 cfg
       \<and> engine_risks rt d1 cfg = engine_risks rt d2 cfg"
proof -
  from assms(2) have 1: "load_block_extractor_output rt d1 = Inr (fst lb1, snd lb1)"
    by simp
  from assms(3) have 2: "load_block_extractor_output rt d2 = Inr (fst lb2, snd lb2)"
    by simp
  from 1 have "load_all (load_block rt) (items_of d1 (lit ''blocks'')) = Inr (snd lb1)"
    unfolding load_Inr_iff by simp
  moreover from 2 have "load_all (load_block rt) (items_of d2 (lit ''blocks'')) = Inr (snd lb2)"
    unfolding load_Inr_iff by simp
  ultimately have same: "snd lb2 = snd lb1"
    using assms(1) by simp
  from 2 same have 3: "load_block_extractor_output rt d2 = Inr (fst lb2, snd lb1)"
    by simp
  from 1 3 have "run_engine rt d1 cfg = run_engine rt d2 cfg"
    by (rule run_engine_same_blocks)
  then show ?thesis by (simp add: engine_risks_def)
qed

text \<open>
  The label document with and without a line: both load, and the engine returns the
  same result on both.
\<close>

theorem lines_do_not_influence_findings_witness:
  "items_of doc_label_lines (lit ''blocks'') = items_of doc_label (lit ''blocks'')
   \<and> load_block_extractor_output rt_ascii doc_label_lines = Inr (lines_label, blocks_label)
   \<and> load_block_extractor_output rt_ascii doc_label = Inr ([], blocks_label)
   \<and> run_engine rt_ascii doc_label_lines cfg_label = run_engine rt_ascii doc_label cfg_label
   \<and> engine_risks rt_ascii doc_label_lines cfg_label = engine_risks rt_ascii doc_label cfg_label"
proof -
  have 1: "items_of doc_label_lines (lit ''blocks'') = items_of doc_label (lit ''blocks'')"
    by (simp add: items_of_def doc_label_lines_def doc_label_def py_or_def lit_def)
  have 2: "load_block_extractor_output rt_ascii doc_label_lines
             = Inr (lines_label, blocks_label)"
    by (simp add: engine_eval doc_label_lines_def line_obj_def lines_label_def
        blocks_label_def)
  have 3: "load_block_extractor_output rt_ascii doc_label = Inr ([], blocks_label)"
    by (simp add: engine_eval doc_label_def blocks_label_def)
  from lines_do_not_influence_findings [OF 1 2 3, of cfg_label] 1 2 3
  show ?thesis by simp
qed

text \<open>
  The claim as stated fails on two documents without blocks: the one without lines gives
  the seven missing-field findings, the one with a line whose \<open>source_page\<close> is the
  string \<open>abc\<close> raises \<open>ValueError\<close> and gives no risk list at all.
\<close>

theorem lines_do_not_influence_findings_counterexample:
  "items_of doc_bad_line (lit ''blocks'') = items_of doc_no_blocks (lit ''blocks'')
   \<and> run_engine rt_ascii doc_bad_line cfg_empty = Inl ValueError
   \<and> map risk_type (engine_risks rt_ascii doc_no_blocks cfg_empty) = seven_missing_types
   \<and> run_engine rt_ascii doc_bad_line cfg_empty \<noteq> run_engine rt_ascii doc_no_blocks cfg_empty"
  by (simp add: engine_eval doc_bad_line_def doc_no_blocks_def line_obj_def items_of_def
      seven_missing_types_def int_of_str_def ascii_int_def is_c_space_def)

end
